theory Spec2Isabelle
  imports Main "HOL-Library.AList" "HOL-Library.Sublist"
begin

text \<open>
  A model of the resource modules of the Apify API client for JavaScript: the function-style
  modules for datasets, key-value stores, request queues, tasks and crawlers, the class-style
  dataset client, and the client object that decorates the methods with its options. Each
  method is a function of its options that returns what the call hands back (an error thrown
  at the call site, or a settled promise) together with the log of the HTTP requests issued.
\<close>

section \<open>JavaScript values\<close>

text \<open>
  The client passes plain JavaScript values around: option bags, request descriptors and
  responses are object literals. Objects are association lists in insertion order, numbers
  are integers (fractions and NaN cannot be stated), a Buffer is its list of bytes
  and a function value is represented by its source text.
\<close>

datatype jsval =
    Undefined
  | Null
  | Bool bool
  | Num int
  | Str string
  | Buf "nat list"
  | Func string
  | Arr "jsval list"
  | Obj "(string \<times> jsval) list"

type_synonym obj = "(string \<times> jsval) list"

text \<open>Property read \<open>o.k\<close>: a missing property reads as \<open>undefined\<close>.\<close>

definition get :: "obj \<Rightarrow> string \<Rightarrow> jsval" where
  "get ob k = (case map_of ob k of None \<Rightarrow> Undefined | Some v \<Rightarrow> v)"

text \<open>Property write \<open>o[k] = v\<close>: replaces in place, or appends a new key.\<close>

definition set_prop :: "string \<Rightarrow> jsval \<Rightarrow> obj \<Rightarrow> obj" where
  "set_prop k v ob = AList.update k v ob"

text \<open>\<open>Object.assign(target, source)\<close>: every own property of the source is written to the target.\<close>

definition assign :: "obj \<Rightarrow> obj \<Rightarrow> obj" where
  "assign target source = foldl (\<lambda>acc (k, v). set_prop k v acc) target source"

text \<open>\<open>_.omit(o, k)\<close> of underscore.\<close>

definition omit :: "obj \<Rightarrow> string \<Rightarrow> obj" where
  "omit ob k = AList.delete k ob"

text \<open>Truthiness, as tested by \<open>if (x)\<close>, \<open>!x\<close> and \<open>x ? a : b\<close>.\<close>

fun truthy :: "jsval \<Rightarrow> bool" where
  "truthy Undefined = False"
| "truthy Null = False"
| "truthy (Bool b) = b"
| "truthy (Num n) = (n \<noteq> 0)"
| "truthy (Str s) = (s \<noteq> [])"
| "truthy (Buf _) = True"
| "truthy (Func _) = True"
| "truthy (Arr _) = True"
| "truthy (Obj _) = True"

text \<open>Decimal digits of a number, for string concatenation and template literals.\<close>

function digits :: "nat \<Rightarrow> string" where
  "digits n = (if n < 10 then [''0123456789'' ! n]
               else digits (n div 10) @ [''0123456789'' ! (n mod 10)])"
  by pat_completeness auto
termination
  by (relation "measure id") auto

declare digits.simps [simp del]

definition show_int :: "int \<Rightarrow> string" where
  "show_int i = (if i < 0 then ''-'' @ digits (nat (- i)) else digits (nat i))"

fun join_comma :: "string list \<Rightarrow> string" where
  "join_comma [] = []"
| "join_comma [s] = s"
| "join_comma (s # t # ss) = s @ '','' @ join_comma (t # ss)"

text \<open>
  String conversion, as applied by \<open>+\<close> on a string and by template literals, for the values
  that validation has found to be strings and for the environment of the worked examples.
  A Buffer is read byte by byte (the decoding of bytes above 127 is not modelled).
\<close>

fun to_string :: "jsval \<Rightarrow> string" where
  "to_string Undefined = ''undefined''"
| "to_string Null = ''null''"
| "to_string (Bool b) = (if b then ''true'' else ''false'')"
| "to_string (Num n) = show_int n"
| "to_string (Str s) = s"
| "to_string (Buf bs) = map char_of bs"
| "to_string (Func src) = src"
| "to_string (Arr xs) =
     join_comma (map (\<lambda>x. if x = Undefined \<or> x = Null then [] else to_string x) xs)"
| "to_string (Obj _) = ''[object Object]''"

text \<open>\<open>String.prototype.replace\<close> with a string pattern: only the first occurrence is replaced.\<close>

fun js_replace :: "string \<Rightarrow> string \<Rightarrow> string \<Rightarrow> string" where
  "js_replace pat rep [] = (if pat = [] then rep else [])"
| "js_replace pat rep (c # cs) =
     (if prefix pat (c # cs) then rep @ drop (length pat) (c # cs)
      else c # js_replace pat rep cs)"

section \<open>Errors, promises and the transport\<close>

datatype error =
    MissingParameterError string
  | InvalidParameterTypeError string
  | ArgumentError string
  | JsError string
  | TypeError string
  | HttpError nat
  | NetworkError string

text \<open>
  A settled promise is \<open>Inl e\<close> (rejected) or \<open>Inr v\<close> (resolved). A call either throws at
  the call site or hands back a promise.
\<close>

type_synonym promise = "error + jsval"

datatype call = Throws error | Promise promise

definition then_p :: "promise \<Rightarrow> (jsval \<Rightarrow> promise) \<Rightarrow> promise" where
  "then_p p f = (case p of Inl e \<Rightarrow> Inl e | Inr v \<Rightarrow> f v)"

definition catch_p :: "promise \<Rightarrow> (error \<Rightarrow> promise) \<Rightarrow> promise" where
  "catch_p p g = (case p of Inl e \<Rightarrow> g e | Inr v \<Rightarrow> Inr v)"

text \<open>
  The helpers of \<open>utils\<close> and the built-ins that the modelled functions receive from outside:
  the HTTP transport answers a request from the requests issued so far (the last one being
  the current request), \<open>gzipPromise\<close> yields the compressed bytes or rejects, \<open>String\<close> is the
  string conversion of the host.
\<close>

record env =
  respond :: "obj list \<Rightarrow> promise"
  gzipPromise :: "jsval \<Rightarrow> error + nat list"
  encodeBody :: "jsval \<Rightarrow> jsval \<Rightarrow> jsval"
  JSON_stringify :: "jsval \<Rightarrow> jsval"
  JSON_parse :: "jsval \<Rightarrow> promise"
  parseDateFields :: "jsval \<Rightarrow> promise"
  stringifyWebhooksToBase64 :: "jsval \<Rightarrow> jsval"
  Number :: "jsval \<Rightarrow> jsval"
  String :: "jsval \<Rightarrow> string"

text \<open>
  A value that has not been checked to be a string, inside a template literal or added to a
  string. A string is taken as it is; \<open>undefined\<close>, \<open>null\<close>, a boolean and a safe integer have
  the text that the language fixes (the decimal digits, for the integer); every other value,
  a number beyond the safe integers among them (\<open>1e21\<close> reads \<open>1e+21\<close>), is converted by the
  host.
\<close>

definition MAX_SAFE_INTEGER :: int where
  "MAX_SAFE_INTEGER = 2 ^ 53 - 1"

definition string_of :: "env \<Rightarrow> jsval \<Rightarrow> string" where
  "string_of E v =
     (case v of
        Str s \<Rightarrow> s
      | Undefined \<Rightarrow> ''undefined''
      | Null \<Rightarrow> ''null''
      | Bool b \<Rightarrow> (if b then ''true'' else ''false'')
      | Num n \<Rightarrow> (if - MAX_SAFE_INTEGER \<le> n \<and> n \<le> MAX_SAFE_INTEGER then show_int n
                  else String E v)
      | _ \<Rightarrow> String E v)"

text \<open>\<open>requestPromise(opts)\<close>: the request is appended to the log of issued requests.\<close>

definition requestPromise :: "env \<Rightarrow> obj list \<Rightarrow> obj \<Rightarrow> promise \<times> obj list" where
  "requestPromise E log opts = (respond E (log @ [opts]), log @ [opts])"

subsection \<open>Helpers of \<open>utils\<close> described by the specification\<close>

datatype kind = KString | KNumber | KBoolean | KObject | KArray | KBuffer

datatype ptype = Required "kind list" | Maybe "kind list"

fun has_kind :: "jsval \<Rightarrow> kind \<Rightarrow> bool" where
  "has_kind (Str _) KString = True"
| "has_kind (Num _) KNumber = True"
| "has_kind (Bool _) KBoolean = True"
| "has_kind (Obj _) KObject = True"
| "has_kind (Arr _) KArray = True"
| "has_kind (Buf _) KBuffer = True"
| "has_kind _ _ = False"

definition absent :: "jsval \<Rightarrow> bool" where
  "absent v = (v = Undefined \<or> v = Null)"

text \<open>
  Modelled from the spec: \<open>checkParamOrThrow\<close> of \<open>utils\<close>, which is not among the sources.
  Section 4.1: \<open>validate(value, name, expectedKind)\<close> with a required or optional kind, or a
  union of kinds; it fails with a \<open>MissingParameter\<close> error when a required value is absent
  and with an \<open>InvalidParameterType\<close> error when a value is present with the wrong type,
  naming the parameter. \<open>None\<close> is a passed check.
\<close>

definition checkParamOrThrow :: "jsval \<Rightarrow> string \<Rightarrow> ptype \<Rightarrow> error option" where
  "checkParamOrThrow v name t =
     (case t of
        Maybe ks \<Rightarrow>
          (if absent v \<or> list_ex (has_kind v) ks then None
           else Some (InvalidParameterTypeError name))
      | Required ks \<Rightarrow>
          (if absent v then Some (MissingParameterError name)
           else if list_ex (has_kind v) ks then None
           else Some (InvalidParameterTypeError name)))"

text \<open>A sequence of checks stops at the first one that throws.\<close>

fun first_error :: "error option list \<Rightarrow> error option" where
  "first_error [] = None"
| "first_error (None # cs) = first_error cs"
| "first_error (Some e # cs) = Some e"

text \<open>
  Modelled from the spec: \<open>catchNotFoundOrThrow\<close> of \<open>utils\<close>, which is not among the
  sources. Sections 4.3 and 7: an HTTP 404 is mapped to a null result, every other error is
  raised again.
\<close>

definition catchNotFoundOrThrow :: "error \<Rightarrow> promise" where
  "catchNotFoundOrThrow e = (if e = HttpError 404 then Inr Null else Inl e)"

text \<open>
  Modelled from the spec: \<open>pluckData\<close> of \<open>utils\<close>, which is not among the sources.
  Section 4.2: the payload is the \<open>data\<close> field of the \<open>{ data: ... }\<close> envelope.
\<close>

fun pluckData :: "jsval \<Rightarrow> promise" where
  "pluckData (Obj ob) = Inr (get ob ''data'')"
| "pluckData Undefined = Inl (TypeError ''Cannot read property data'')"
| "pluckData Null = Inl (TypeError ''Cannot read property data'')"
| "pluckData _ = Inr Undefined"

section \<open>Pagination lists\<close>

text \<open>
  A response with headers, as the transport resolves it: \<open>data\<close> (or \<open>body\<close>) and \<open>headers\<close>.
  \<open>x.length\<close> is defined on arrays, strings and buffers, is \<open>undefined\<close> on the other values
  that a response can hold, and throws on \<open>undefined\<close> and \<open>null\<close>.
\<close>

fun js_length :: "jsval \<Rightarrow> promise" where
  "js_length (Arr xs) = Inr (Num (int (length xs)))"
| "js_length (Str s) = Inr (Num (int (length s)))"
| "js_length (Buf bs) = Inr (Num (int (length bs)))"
| "js_length Undefined = Inl (TypeError ''Cannot read property length'')"
| "js_length Null = Inl (TypeError ''Cannot read property length'')"
| "js_length _ = Inr Undefined"

fun headers_of :: "jsval \<Rightarrow> error + obj" where
  "headers_of (Obj h) = Inr h"
| "headers_of Undefined = Inl (TypeError ''Cannot read property of undefined'')"
| "headers_of Null = Inl (TypeError ''Cannot read property of null'')"
| "headers_of _ = Inr []"

text \<open>\<open>DatasetClient._createPaginationList\<close> (resource client of datasets).\<close>

definition createPaginationList :: "env \<Rightarrow> obj \<Rightarrow> promise" where
  "createPaginationList E response =
     (case headers_of (get response ''headers'') of
        Inl e \<Rightarrow> Inl e
      | Inr h \<Rightarrow>
          (case js_length (get response ''data'') of
             Inl e \<Rightarrow> Inl e
           | Inr n \<Rightarrow> Inr (Obj
               [(''items'', get response ''data''),
                (''total'', Number E (get h ''x-apify-pagination-total'')),
                (''offset'', Number E (get h ''x-apify-pagination-offset'')),
                (''count'', n),
                (''limit'', Number E (get h ''x-apify-pagination-limit''))])))"

text \<open>\<open>wrapArray\<close> of the crawlers module.\<close>

definition wrapArray :: "obj \<Rightarrow> promise" where
  "wrapArray response =
     (case headers_of (get response ''headers'') of
        Inl e \<Rightarrow> Inl e
      | Inr h \<Rightarrow> Inr (Obj
          [(''items'', get response ''body''),
           (''total'', get h ''x-apifier-pagination-total''),
           (''offset'', get h ''x-apifier-pagination-offset''),
           (''count'', get h ''x-apifier-pagination-count''),
           (''limit'', get h ''x-apifier-pagination-limit'')]))"

section \<open>Common shapes of the resource modules\<close>

text \<open>Member access \<open>x.k\<close> on an arbitrary value: it throws on \<open>undefined\<close> and \<open>null\<close>.\<close>

fun js_member :: "jsval \<Rightarrow> string \<Rightarrow> promise" where
  "js_member (Obj ob) k = Inr (get ob k)"
| "js_member Undefined k = Inl (TypeError (''Cannot read property '' @ k))"
| "js_member Null k = Inl (TypeError (''Cannot read property '' @ k))"
| "js_member _ k = Inr Undefined"

text \<open>The type descriptors that the modules pass to \<open>checkParamOrThrow\<close>.\<close>

abbreviation "tString \<equiv> Required [KString]"
abbreviation "tNumber \<equiv> Required [KNumber]"
abbreviation "tBoolean \<equiv> Required [KBoolean]"
abbreviation "tObject \<equiv> Required [KObject]"
abbreviation "tMaybeString \<equiv> Maybe [KString]"
abbreviation "tMaybeNumber \<equiv> Maybe [KNumber]"
abbreviation "tMaybeBoolean \<equiv> Maybe [KBoolean]"
abbreviation "tMaybeObject \<equiv> Maybe [KObject]"
abbreviation "tMaybeArray \<equiv> Maybe [KArray]"
abbreviation "tObjectOrArray \<equiv> Required [KObject, KArray]"
abbreviation "tBufferOrString \<equiv> Required [KBuffer, KString]"

text \<open>\<open>if (c) o.k = v\<close>\<close>

definition set_if :: "bool \<Rightarrow> string \<Rightarrow> jsval \<Rightarrow> obj \<Rightarrow> obj" where
  "set_if c k v ob = (if c then set_prop k v ob else ob)"

text \<open>
  A method that issues one request and chains handlers on its promise:
  \<open>return requestPromise(opts).then(...)\<close>.
\<close>

definition single :: "env \<Rightarrow> obj list \<Rightarrow> obj \<Rightarrow> (promise \<Rightarrow> promise) \<Rightarrow> call \<times> obj list" where
  "single E log opts chain =
     (case requestPromise E log opts of (p, log') \<Rightarrow> (Promise (chain p), log'))"

section \<open>Datasets (function-style module)\<close>

definition datasets_BASE_PATH :: string where
  "datasets_BASE_PATH = ''/v2/datasets''"

definition SIGNED_URL_UPLOAD_MIN_BYTESIZE :: nat where
  "SIGNED_URL_UPLOAD_MIN_BYTESIZE = 1024 * 256"

definition getDataset :: "env \<Rightarrow> obj list \<Rightarrow> obj \<Rightarrow> call \<times> obj list" where
  "getDataset E log options =
     (let baseUrl = get options ''baseUrl''; datasetId = get options ''datasetId'' in
      case first_error
             [checkParamOrThrow baseUrl ''baseUrl'' tString,
              checkParamOrThrow datasetId ''datasetId'' tString] of
        Some e \<Rightarrow> (Throws e, log)
      | None \<Rightarrow>
          single E log
            [(''url'', Str (to_string baseUrl @ datasets_BASE_PATH @ ''/'' @ to_string datasetId)),
             (''json'', Bool True),
             (''method'', Str ''GET'')]
            (\<lambda>p. catch_p (then_p p pluckData) catchNotFoundOrThrow))"

definition deleteDataset :: "env \<Rightarrow> obj list \<Rightarrow> obj \<Rightarrow> call \<times> obj list" where
  "deleteDataset E log options =
     (let baseUrl = get options ''baseUrl''; datasetId = get options ''datasetId'' in
      case first_error
             [checkParamOrThrow baseUrl ''baseUrl'' tString,
              checkParamOrThrow datasetId ''datasetId'' tString] of
        Some e \<Rightarrow> (Throws e, log)
      | None \<Rightarrow>
          single E log
            [(''url'', Str (to_string baseUrl @ datasets_BASE_PATH @ ''/'' @ to_string datasetId)),
             (''json'', Bool True),
             (''method'', Str ''DELETE'')]
            (\<lambda>p. p))"

text \<open>
  \<open>putItems\<close>. The checks of the options, the request descriptor \<open>requestOpts\<close> and the
  method are given one after the other.
\<close>

definition putItems_checks :: "obj \<Rightarrow> error option" where
  "putItems_checks options =
     first_error
       [checkParamOrThrow (get options ''baseUrl'') ''baseUrl'' tString,
        checkParamOrThrow (get options ''datasetId'') ''datasetId'' tString,
        checkParamOrThrow (get options ''data'') ''data'' tObjectOrArray]"



section \<open>Key-value stores\<close>

definition kvs_BASE_PATH :: string where
  "kvs_BASE_PATH = ''/v2/key-value-stores''"

text \<open>The header \<open>name\<close> of a request descriptor.\<close>

definition header :: "obj \<Rightarrow> string \<Rightarrow> jsval" where
  "header opts name = (case get opts ''headers'' of Obj h \<Rightarrow> get h name | _ \<Rightarrow> Undefined)"

definition getStore :: "env \<Rightarrow> obj list \<Rightarrow> obj \<Rightarrow> call \<times> obj list" where
  "getStore E log options =
     (let baseUrl = get options ''baseUrl''; storeId = get options ''storeId'' in
      case first_error
             [checkParamOrThrow baseUrl ''baseUrl'' tString,
              checkParamOrThrow storeId ''storeId'' tString] of
        Some e \<Rightarrow> (Throws e, log)
      | None \<Rightarrow>
          single E log
            [(''url'', Str (to_string baseUrl @ kvs_BASE_PATH @ ''/'' @ to_string storeId)),
             (''json'', Bool True),
             (''method'', Str ''GET'')]
            (\<lambda>p. catch_p (then_p p pluckData) catchNotFoundOrThrow))"

definition deleteRecord :: "env \<Rightarrow> obj list \<Rightarrow> obj \<Rightarrow> call \<times> obj list" where
  "deleteRecord E log options =
     (let baseUrl = get options ''baseUrl''; storeId = get options ''storeId'';
          key = get options ''key'' in
      case first_error
             [checkParamOrThrow baseUrl ''baseUrl'' tString,
              checkParamOrThrow storeId ''storeId'' tString,
              checkParamOrThrow key ''key'' tString] of
        Some e \<Rightarrow> (Throws e, log)
      | None \<Rightarrow>
          single E log
            [(''url'', Str (to_string baseUrl @ kvs_BASE_PATH @ ''/'' @ to_string storeId
                            @ ''/records/'' @ to_string key)),
             (''json'', Bool True),
             (''method'', Str ''DELETE'')]
            (\<lambda>p. p))"

text \<open>
  \<open>putRecord\<close> of the key-value store module that offloads by size. The destructuring
  default \<open>contentType = 'text/plain'\<close> applies when the option is \<open>undefined\<close>. The local
  constants \<open>contentType\<close>, \<open>encodedBody\<close> and \<open>requestOpts\<close> of the source, the checks, and the
  descriptor of the request for a signed URL are given first.
\<close>

definition putRecord_contentType :: "obj \<Rightarrow> jsval" where
  "putRecord_contentType options =
     (if get options ''contentType'' = Undefined then Str ''text/plain''
      else get options ''contentType'')"

definition putRecord_encodedBody :: "env \<Rightarrow> obj \<Rightarrow> jsval" where
  "putRecord_encodedBody E options =
     (if truthy (get options ''useRawBody'') then get options ''body''
      else encodeBody E (get options ''body'') (putRecord_contentType options))"

definition putRecord_checks :: "env \<Rightarrow> obj \<Rightarrow> error option" where
  "putRecord_checks E options =
     first_error
       [checkParamOrThrow (get options ''baseUrl'') ''baseUrl'' tString,
        checkParamOrThrow (get options ''storeId'') ''storeId'' tString,
        checkParamOrThrow (get options ''key'') ''key'' tString,
        checkParamOrThrow (putRecord_contentType options) ''contentType'' tString,
        checkParamOrThrow (get options ''useRawBody'') ''useRawBody'' tMaybeBoolean,
        checkParamOrThrow (putRecord_encodedBody E options) ''body'' tBufferOrString]"

definition recordUrl :: "obj \<Rightarrow> string" where
  "recordUrl options =
     to_string (get options ''baseUrl'') @ kvs_BASE_PATH @ ''/''
     @ to_string (get options ''storeId'') @ ''/records/'' @ to_string (get options ''key'')"

definition putRecord_requestOpts :: "obj \<Rightarrow> nat list \<Rightarrow> obj" where
  "putRecord_requestOpts options gzipedBody =
     [(''url'', Str (recordUrl options)),
      (''method'', Str ''PUT''),
      (''body'', Buf gzipedBody),
      (''json'', Bool False),
      (''headers'', Obj
         [(''Content-Type'', putRecord_contentType options),
          (''Content-Encoding'', Str ''gzip'')])]"

definition putRecord_uploadUrlOpts :: "obj \<Rightarrow> obj" where
  "putRecord_uploadUrlOpts options =
     [(''url'', Str (recordUrl options @ ''/direct-upload-url'')),
      (''method'', Str ''GET''),
      (''json'', Bool True),
      (''headers'', Obj [(''Content-Type'', putRecord_contentType options)])]"

text \<open>\<open>response.data.signedUrl\<close>\<close>

definition signedUrl_of :: "jsval \<Rightarrow> promise" where
  "signedUrl_of response = then_p (js_member response ''data'') (\<lambda>d. js_member d ''signedUrl'')"

definition putRecord :: "env \<Rightarrow> obj list \<Rightarrow> obj \<Rightarrow> call \<times> obj list" where
  "putRecord E log options =
     (case putRecord_checks E options of
        Some e \<Rightarrow> (Throws e, log)
      | None \<Rightarrow>
          (case gzipPromise E (putRecord_encodedBody E options) of
             Inl e \<Rightarrow> (Promise (Inl e), log)
           | Inr gzipedBody \<Rightarrow>
               (let requestOpts = putRecord_requestOpts options gzipedBody in
                if length gzipedBody < SIGNED_URL_UPLOAD_MIN_BYTESIZE
                then single E log requestOpts (\<lambda>p. p)
                else
                  (case requestPromise E log (putRecord_uploadUrlOpts options) of
                     (Inl e, log1) \<Rightarrow> (Promise (Inl e), log1)
                   | (Inr response, log1) \<Rightarrow>
                       (case signedUrl_of response of
                          Inl e \<Rightarrow> (Promise (Inl e), log1)
                        | Inr signedUrl \<Rightarrow>
                            single E log1 (assign (assign [] requestOpts) [(''url'', signedUrl)])
                              (\<lambda>p. p))))))"

text \<open>
  \<open>putRecord\<close> of \<open>key_value_stores.js\<close>, with the \<open>encodeBody\<close> that this file defines
  itself. Here the signed-URL path is chosen by the option \<open>url\<close>.
\<close>

definition CONTENT_TYPE_JSON :: string where
  "CONTENT_TYPE_JSON = ''application/json''"

definition key_value_stores_encodeBody :: "env \<Rightarrow> jsval \<Rightarrow> jsval \<Rightarrow> jsval" where
  "key_value_stores_encodeBody E body contentType =
     (if contentType = Str CONTENT_TYPE_JSON then JSON_stringify E body else body)"

definition key_value_stores_checks :: "obj \<Rightarrow> error option" where
  "key_value_stores_checks options =
     first_error
       [checkParamOrThrow (get options ''baseUrl'') ''baseUrl'' tString,
        checkParamOrThrow (get options ''storeId'') ''storeId'' tString,
        checkParamOrThrow (get options ''key'') ''key'' tString,
        checkParamOrThrow (putRecord_contentType options) ''contentType'' tString,
        checkParamOrThrow (get options ''useRawBody'') ''useRawBody'' tMaybeBoolean,
        checkParamOrThrow (get options ''url'') ''url'' tMaybeBoolean]"

definition key_value_stores_requestOpts :: "env \<Rightarrow> obj \<Rightarrow> obj" where
  "key_value_stores_requestOpts E options =
     [(''url'', Str (recordUrl options)),
      (''method'', Str ''PUT''),
      (''body'', if truthy (get options ''useRawBody'') then get options ''body''
                 else key_value_stores_encodeBody E (get options ''body'')
                        (putRecord_contentType options)),
      (''json'', Bool False),
      (''headers'', Obj [(''Content-Type'', putRecord_contentType options)])]"

text \<open>The descriptors \<open>newRequestOpts\<close> and \<open>s3RequestOpts\<close> of the signed-URL path.\<close>

definition key_value_stores_newRequestOpts :: "env \<Rightarrow> obj \<Rightarrow> obj" where
  "key_value_stores_newRequestOpts E options =
     assign (assign [] (key_value_stores_requestOpts E options))
       [(''body'', Null), (''json'', Bool True), (''qs'', Obj [(''url'', Num 1)])]"

definition key_value_stores_s3RequestOpts :: "env \<Rightarrow> obj \<Rightarrow> jsval \<Rightarrow> nat list \<Rightarrow> obj" where
  "key_value_stores_s3RequestOpts E options signedUrl gzipedBody =
     assign (assign [] (key_value_stores_requestOpts E options))
       [(''url'', signedUrl),
        (''method'', Str ''PUT''),
        (''body'', Buf gzipedBody),
        (''json'', Bool False),
        (''headers'', Obj
           [(''Content-Type'', putRecord_contentType options),
            (''Content-Encoding'', Str ''gzip'')])]"

definition key_value_stores_putRecord :: "env \<Rightarrow> obj list \<Rightarrow> obj \<Rightarrow> call \<times> obj list" where
  "key_value_stores_putRecord E log options =
     (case key_value_stores_checks options of
        Some e \<Rightarrow> (Throws e, log)
      | None \<Rightarrow>
          (let requestOpts = key_value_stores_requestOpts E options in
           if \<not> truthy (get options ''url'') then single E log requestOpts (\<lambda>p. p)
           else
             (case requestPromise E log (key_value_stores_newRequestOpts E options) of
                (Inl e, log1) \<Rightarrow> (Promise (Inl e), log1)
              | (Inr response, log1) \<Rightarrow>
                  (case signedUrl_of response of
                     Inl e \<Rightarrow> (Promise (Inl e), log1)
                   | Inr signedUrl \<Rightarrow>
                       (case gzipPromise E (get requestOpts ''body'') of
                          Inl e \<Rightarrow> (Promise (Inl e), log1)
                        | Inr gzipedBody \<Rightarrow>
                            single E log1
                              (key_value_stores_s3RequestOpts E options signedUrl gzipedBody)
                              (\<lambda>p. p))))))"



definition kv_stores_putRecord_opts :: "env \<Rightarrow> obj \<Rightarrow> obj" where
  "kv_stores_putRecord_opts E options =
     [(''url'', Str (string_of E (get options ''baseUrl'') @ kvs_BASE_PATH @ ''/''
                     @ string_of E (get options ''storeId'') @ ''/records/''
                     @ string_of E (get options ''recordKey''))),
      (''json'', Bool True),
      (''method'', Str ''PUT''),
      (''body'', get options ''body''),
      (''headers'', Obj [(''Content-Type'', get options ''contentType'')])]"

definition kv_stores_putRecord :: "env \<Rightarrow> obj list \<Rightarrow> obj \<Rightarrow> call \<times> obj list" where
  "kv_stores_putRecord E log options = single E log (kv_stores_putRecord_opts E options) (\<lambda>p. p)"

section \<open>Request queues\<close>

definition REQUEST_ENDPOINTS_EXP_BACKOFF_MAX_REPEATS :: int where
  "REQUEST_ENDPOINTS_EXP_BACKOFF_MAX_REPEATS = 9"

definition rq_BASE_PATH :: string where
  "rq_BASE_PATH = ''/v2/request-queues''"

text \<open>
  Every operation of the module validates its options, builds one request descriptor and
  hands it to \<open>requestPromise\<close>. The descriptor is modelled on its own (\<open>Inl\<close> is the error a
  failed validation throws), the operation then dispatches it.
\<close>

definition getOrCreateQueue_opts :: "obj \<Rightarrow> error + obj" where
  "getOrCreateQueue_opts options =
     (let baseUrl = get options ''baseUrl''; token = get options ''token'';
          queueName = get options ''queueName'' in
      case first_error
             [checkParamOrThrow baseUrl ''baseUrl'' tString,
              checkParamOrThrow token ''token'' tString,
              checkParamOrThrow queueName ''queueName'' tString] of
        Some e \<Rightarrow> Inl e
      | None \<Rightarrow> Inr
          [(''url'', Str (to_string baseUrl @ rq_BASE_PATH)),
           (''json'', Bool True),
           (''method'', Str ''POST''),
           (''qs'', Obj [(''name'', queueName), (''token'', token)])])"

definition listQueues_opts :: "obj \<Rightarrow> error + obj" where
  "listQueues_opts options =
     (let baseUrl = get options ''baseUrl''; token = get options ''token'';
          offset = get options ''offset''; limit = get options ''limit'';
          desc = get options ''desc''; unnamed = get options ''unnamed'' in
      case first_error
             [checkParamOrThrow baseUrl ''baseUrl'' tString,
              checkParamOrThrow token ''token'' tString,
              checkParamOrThrow limit ''limit'' tMaybeNumber,
              checkParamOrThrow offset ''offset'' tMaybeNumber,
              checkParamOrThrow desc ''desc'' tMaybeBoolean,
              checkParamOrThrow unnamed ''unnamed'' tMaybeBoolean] of
        Some e \<Rightarrow> Inl e
      | None \<Rightarrow> Inr
          [(''url'', Str (to_string baseUrl @ rq_BASE_PATH)),
           (''json'', Bool True),
           (''method'', Str ''GET''),
           (''qs'', Obj
              (set_if (truthy unnamed) ''unnamed'' (Num 1)
              (set_if (truthy desc) ''desc'' (Num 1)
              (set_if (truthy offset) ''offset'' offset
              (set_if (truthy limit) ''limit'' limit
                 [(''token'', token)])))))])"

definition getQueue_opts :: "obj \<Rightarrow> error + obj" where
  "getQueue_opts options =
     (let baseUrl = get options ''baseUrl''; queueId = get options ''queueId'';
          token = get options ''token'' in
      case first_error
             [checkParamOrThrow baseUrl ''baseUrl'' tString,
              checkParamOrThrow queueId ''queueId'' tString,
              checkParamOrThrow token ''token'' tMaybeString] of
        Some e \<Rightarrow> Inl e
      | None \<Rightarrow> Inr
          [(''url'', Str (to_string baseUrl @ rq_BASE_PATH @ ''/'' @ to_string queueId)),
           (''json'', Bool True),
           (''method'', Str ''GET''),
           (''qs'', Obj (set_if (truthy token) ''token'' token []))])"

definition deleteQueue_opts :: "obj \<Rightarrow> error + obj" where
  "deleteQueue_opts options =
     (let baseUrl = get options ''baseUrl''; queueId = get options ''queueId'';
          token = get options ''token'' in
      case first_error
             [checkParamOrThrow baseUrl ''baseUrl'' tString,
              checkParamOrThrow queueId ''queueId'' tString,
              checkParamOrThrow token ''token'' tString] of
        Some e \<Rightarrow> Inl e
      | None \<Rightarrow> Inr
          [(''url'', Str (to_string baseUrl @ rq_BASE_PATH @ ''/'' @ to_string queueId)),
           (''json'', Bool True),
           (''method'', Str ''DELETE''),
           (''qs'', Obj [(''token'', token)])])"

definition addRequest_opts :: "obj \<Rightarrow> error + obj" where
  "addRequest_opts options =
     (let baseUrl = get options ''baseUrl''; queueId = get options ''queueId'';
          request = get options ''request'';
          forefront = (if get options ''forefront'' = Undefined then Bool False
                       else get options ''forefront'');
          token = get options ''token'' in
      case first_error
             [checkParamOrThrow baseUrl ''baseUrl'' tString,
              checkParamOrThrow queueId ''queueId'' tString,
              checkParamOrThrow request ''request'' tObject,
              checkParamOrThrow forefront ''forefront'' tBoolean,
              checkParamOrThrow token ''token'' tString] of
        Some e \<Rightarrow> Inl e
      | None \<Rightarrow> Inr
          [(''url'', Str (to_string baseUrl @ rq_BASE_PATH @ ''/'' @ to_string queueId
                          @ ''/requests'')),
           (''json'', Bool True),
           (''method'', Str ''POST''),
           (''body'', request),
           (''qs'', Obj [(''forefront'', forefront), (''token'', token)]),
           (''expBackOffMaxRepeats'', Num REQUEST_ENDPOINTS_EXP_BACKOFF_MAX_REPEATS)])"

definition getRequest_opts :: "obj \<Rightarrow> error + obj" where
  "getRequest_opts options =
     (let baseUrl = get options ''baseUrl''; queueId = get options ''queueId'';
          requestId = get options ''requestId''; token = get options ''token'' in
      case first_error
             [checkParamOrThrow baseUrl ''baseUrl'' tString,
              checkParamOrThrow queueId ''queueId'' tString,
              checkParamOrThrow requestId ''requestId'' tString,
              checkParamOrThrow token ''token'' tMaybeString] of
        Some e \<Rightarrow> Inl e
      | None \<Rightarrow> Inr
          [(''url'', Str (to_string baseUrl @ rq_BASE_PATH @ ''/'' @ to_string queueId
                          @ ''/requests/'' @ to_string requestId)),
           (''json'', Bool True),
           (''method'', Str ''GET''),
           (''qs'', Obj (set_if (truthy token) ''token'' token [])),
           (''expBackOffMaxRepeats'', Num REQUEST_ENDPOINTS_EXP_BACKOFF_MAX_REPEATS)])"

definition deleteRequest_opts :: "obj \<Rightarrow> error + obj" where
  "deleteRequest_opts options =
     (let baseUrl = get options ''baseUrl''; queueId = get options ''queueId'';
          requestId = get options ''requestId''; token = get options ''token'' in
      case first_error
             [checkParamOrThrow baseUrl ''baseUrl'' tString,
              checkParamOrThrow queueId ''queueId'' tString,
              checkParamOrThrow requestId ''requestId'' tString,
              checkParamOrThrow token ''token'' tString] of
        Some e \<Rightarrow> Inl e
      | None \<Rightarrow> Inr
          [(''url'', Str (to_string baseUrl @ rq_BASE_PATH @ ''/'' @ to_string queueId
                          @ ''/requests/'' @ to_string requestId)),
           (''json'', Bool True),
           (''method'', Str ''DELETE''),
           (''qs'', Obj [(''token'', token)]),
           (''expBackOffMaxRepeats'', Num REQUEST_ENDPOINTS_EXP_BACKOFF_MAX_REPEATS)])"

definition updateRequest_opts :: "obj \<Rightarrow> error + obj" where
  "updateRequest_opts options =
     (let baseUrl = get options ''baseUrl''; queueId = get options ''queueId'';
          requestId = get options ''requestId''; request = get options ''request'';
          forefront = (if get options ''forefront'' = Undefined then Bool False
                       else get options ''forefront'');
          token = get options ''token'' in
      case checkParamOrThrow request ''request'' tObject of
        Some e \<Rightarrow> Inl e
      | None \<Rightarrow>
          (case (if truthy requestId then Inr requestId else js_member request ''id'') of
             Inl e \<Rightarrow> Inl e
           | Inr safeRequestId \<Rightarrow>
               (case first_error
                       [checkParamOrThrow baseUrl ''baseUrl'' tString,
                        checkParamOrThrow queueId ''queueId'' tString,
                        checkParamOrThrow safeRequestId ''requestId'' tString,
                        checkParamOrThrow forefront ''forefront'' tBoolean,
                        checkParamOrThrow token ''token'' tString] of
                  Some e \<Rightarrow> Inl e
                | None \<Rightarrow> Inr
                    [(''url'', Str (to_string baseUrl @ rq_BASE_PATH @ ''/'' @ to_string queueId
                                    @ ''/requests/'' @ to_string safeRequestId)),
                     (''json'', Bool True),
                     (''method'', Str ''PUT''),
                     (''body'', request),
                     (''qs'', Obj [(''forefront'', forefront), (''token'', token)]),
                     (''expBackOffMaxRepeats'',
                        Num REQUEST_ENDPOINTS_EXP_BACKOFF_MAX_REPEATS)])))"

definition getHead_opts :: "obj \<Rightarrow> error + obj" where
  "getHead_opts options =
     (let baseUrl = get options ''baseUrl''; queueId = get options ''queueId'';
          limit = get options ''limit''; token = get options ''token'' in
      case first_error
             [checkParamOrThrow baseUrl ''baseUrl'' tString,
              checkParamOrThrow queueId ''queueId'' tString,
              checkParamOrThrow limit ''limit'' tNumber,
              checkParamOrThrow token ''token'' tMaybeString] of
        Some e \<Rightarrow> Inl e
      | None \<Rightarrow> Inr
          [(''url'', Str (to_string baseUrl @ rq_BASE_PATH @ ''/'' @ to_string queueId @ ''/head'')),
           (''json'', Bool True),
           (''method'', Str ''GET''),
           (''qs'', Obj (set_if (truthy token) ''token'' token
                        (set_if (truthy limit) ''limit'' limit []))),
           (''expBackOffMaxRepeats'', Num REQUEST_ENDPOINTS_EXP_BACKOFF_MAX_REPEATS)])"

text \<open>The operations of the module, in the order of the source file.\<close>

datatype queue_op =
    GetOrCreateQueue | ListQueues | GetQueue | DeleteQueue
  | AddRequest | GetRequest | DeleteRequest | UpdateRequest | GetHead

fun queue_opts :: "queue_op \<Rightarrow> obj \<Rightarrow> error + obj" where
  "queue_opts GetOrCreateQueue = getOrCreateQueue_opts"
| "queue_opts ListQueues = listQueues_opts"
| "queue_opts GetQueue = getQueue_opts"
| "queue_opts DeleteQueue = deleteQueue_opts"
| "queue_opts AddRequest = addRequest_opts"
| "queue_opts GetRequest = getRequest_opts"
| "queue_opts DeleteRequest = deleteRequest_opts"
| "queue_opts UpdateRequest = updateRequest_opts"
| "queue_opts GetHead = getHead_opts"

text \<open>The handlers that each operation chains on the promise of its request.\<close>

fun queue_chain :: "env \<Rightarrow> queue_op \<Rightarrow> promise \<Rightarrow> promise" where
  "queue_chain E GetQueue p =
     catch_p (then_p (then_p p pluckData) (parseDateFields E)) catchNotFoundOrThrow"
| "queue_chain E GetRequest p =
     catch_p (then_p (then_p p pluckData) (parseDateFields E)) catchNotFoundOrThrow"
| "queue_chain E DeleteQueue p = p"
| "queue_chain E DeleteRequest p = p"
| "queue_chain E _ p = then_p (then_p p pluckData) (parseDateFields E)"

definition queue_call :: "queue_op \<Rightarrow> env \<Rightarrow> obj list \<Rightarrow> obj \<Rightarrow> call \<times> obj list" where
  "queue_call oper E log options =
     (case queue_opts oper options of
        Inl e \<Rightarrow> (Throws e, log)
      | Inr opts \<Rightarrow> single E log opts (queue_chain E oper))"

section \<open>Task operations\<close>

definition tasks_BASE_PATH :: string where
  "tasks_BASE_PATH = ''/v2/actor-tasks''"

text \<open>
  \<open>const replaceSlashWithTilde = str => str.replace('/', '~')\<close>: only a string has the
  method \<open>replace\<close>, on any other value the call throws.
\<close>

fun replaceSlashWithTilde :: "jsval \<Rightarrow> error + string" where
  "replaceSlashWithTilde (Str str) = Inr (js_replace ''/'' ''~'' str)"
| "replaceSlashWithTilde _ = Inl (TypeError ''str.replace is not a function'')"

definition listTasks_checks :: "obj \<Rightarrow> error option" where
  "listTasks_checks options =
     first_error
       [checkParamOrThrow (get options ''baseUrl'') ''baseUrl'' tString,
        checkParamOrThrow (get options ''token'') ''token'' tString,
        checkParamOrThrow (get options ''limit'') ''limit'' tMaybeNumber,
        checkParamOrThrow (get options ''offset'') ''offset'' tMaybeNumber,
        checkParamOrThrow (get options ''desc'') ''desc'' tMaybeBoolean]"

definition listTasks :: "env \<Rightarrow> obj list \<Rightarrow> obj \<Rightarrow> call \<times> obj list" where
  "listTasks E log options =
     (let baseUrl = get options ''baseUrl''; token = get options ''token'';
          offset = get options ''offset''; limit = get options ''limit'';
          desc = get options ''desc'' in
      case listTasks_checks options of
        Some e \<Rightarrow> (Throws e, log)
      | None \<Rightarrow>
          single E log
            [(''url'', Str (to_string baseUrl @ tasks_BASE_PATH)),
             (''json'', Bool True),
             (''method'', Str ''GET''),
             (''qs'', Obj
                (set_if (truthy desc) ''desc'' (Num 1)
                (set_if (truthy offset) ''offset'' offset
                (set_if (truthy limit) ''limit'' limit
                   [(''token'', token)]))))]
            (\<lambda>p. then_p (then_p p pluckData) (parseDateFields E)))"

text \<open>
  \<open>updateTask\<close>: the identifier is \<open>taskId\<close> or, when that is falsy, \<open>task.id\<close>. The
  object \<open>task\<close> has passed the check for an object when its \<open>id\<close> is read.
\<close>

definition updateTask :: "env \<Rightarrow> obj list \<Rightarrow> obj \<Rightarrow> call \<times> obj list" where
  "updateTask E log options =
     (let baseUrl = get options ''baseUrl''; token = get options ''token'';
          taskId = get options ''taskId''; task = get options ''task'' in
      case first_error
             [checkParamOrThrow baseUrl ''baseUrl'' tString,
              checkParamOrThrow token ''token'' tString,
              checkParamOrThrow task ''task'' tObject] of
        Some e \<Rightarrow> (Throws e, log)
      | None \<Rightarrow>
          (case task of
             Obj t \<Rightarrow>
               (case (if truthy taskId then checkParamOrThrow taskId ''taskId'' tString
                      else checkParamOrThrow (get t ''id'') ''task.id'' tString) of
                  Some e \<Rightarrow> (Throws e, log)
                | None \<Rightarrow>
                    (case replaceSlashWithTilde
                            (if \<not> truthy taskId \<and> truthy (get t ''id'')
                             then get t ''id'' else taskId) of
                       Inl e \<Rightarrow> (Throws e, log)
                     | Inr safeTaskId \<Rightarrow>
                         single E log
                           [(''url'', Str (to_string baseUrl @ tasks_BASE_PATH @ ''/''
                                           @ safeTaskId)),
                            (''json'', Bool True),
                            (''method'', Str ''PUT''),
                            (''qs'', Obj [(''token'', token)]),
                            (''body'', Obj (omit t ''id''))]
                           (\<lambda>p. then_p (then_p p pluckData) (parseDateFields E))))
           | _ \<Rightarrow> (Throws (InvalidParameterTypeError ''task''), log)))"

definition deleteTask :: "env \<Rightarrow> obj list \<Rightarrow> obj \<Rightarrow> call \<times> obj list" where
  "deleteTask E log options =
     (let baseUrl = get options ''baseUrl''; token = get options ''token'';
          taskId = get options ''taskId'' in
      case first_error
             [checkParamOrThrow baseUrl ''baseUrl'' tString,
              checkParamOrThrow token ''token'' tString,
              checkParamOrThrow taskId ''taskId'' tString] of
        Some e \<Rightarrow> (Throws e, log)
      | None \<Rightarrow>
          (case replaceSlashWithTilde taskId of
             Inl e \<Rightarrow> (Throws e, log)
           | Inr safeTaskId \<Rightarrow>
               single E log
                 [(''url'', Str (to_string baseUrl @ tasks_BASE_PATH @ ''/'' @ safeTaskId)),
                  (''json'', Bool True),
                  (''method'', Str ''DELETE''),
                  (''qs'', Obj [(''token'', token)])]
                 (\<lambda>p. then_p p (parseDateFields E))))"

definition getTask :: "env \<Rightarrow> obj list \<Rightarrow> obj \<Rightarrow> call \<times> obj list" where
  "getTask E log options =
     (let baseUrl = get options ''baseUrl''; token = get options ''token'';
          taskId = get options ''taskId'' in
      case first_error
             [checkParamOrThrow baseUrl ''baseUrl'' tString,
              checkParamOrThrow token ''token'' tString,
              checkParamOrThrow taskId ''taskId'' tString] of
        Some e \<Rightarrow> (Throws e, log)
      | None \<Rightarrow>
          (case replaceSlashWithTilde taskId of
             Inl e \<Rightarrow> (Throws e, log)
           | Inr safeTaskId \<Rightarrow>
               single E log
                 [(''url'', Str (to_string baseUrl @ tasks_BASE_PATH @ ''/'' @ safeTaskId)),
                  (''json'', Bool True),
                  (''method'', Str ''GET''),
                  (''qs'', Obj [(''token'', token)])]
                 (\<lambda>p. catch_p (then_p (then_p p pluckData) (parseDateFields E)) catchNotFoundOrThrow)))"

text \<open>
  \<open>runTask\<close>. The error thrown when \<open>body\<close> and \<open>input\<close> are both given is a plain \<open>Error\<close>
  with the message below. The deprecation notice written to the logger is not modelled.
\<close>

definition ConflictingParametersError :: error where
  "ConflictingParametersError =
     JsError (''You cannot use deprecated parameter '' @ [CHR 0x22] @ ''body'' @ [CHR 0x22]
              @ '' along with its replacement '' @ [CHR 0x22] @ ''input'' @ [CHR 0x22] @ ''!'')"

text \<open>The checks at the head of \<open>runTask\<close>.\<close>

definition runTask_checks :: "obj \<Rightarrow> error option" where
  "runTask_checks options =
     first_error
       [checkParamOrThrow (get options ''baseUrl'') ''baseUrl'' tString,
        checkParamOrThrow (get options ''token'') ''token'' tString,
        checkParamOrThrow (get options ''taskId'') ''taskId'' tString,
        checkParamOrThrow (get options ''waitForFinish'') ''waitForFinish'' tMaybeNumber,
        checkParamOrThrow (get options ''timeout'') ''timeout'' tMaybeNumber,
        checkParamOrThrow (get options ''memory'') ''memory'' tMaybeNumber,
        checkParamOrThrow (get options ''build'') ''build'' tMaybeString,
        checkParamOrThrow (get options ''webhooks'') ''webhooks'' tMaybeArray,
        checkParamOrThrow (get options ''input'') ''input'' tMaybeObject]"

definition runTask :: "env \<Rightarrow> obj list \<Rightarrow> obj \<Rightarrow> call \<times> obj list" where
  "runTask E log options =
     (let baseUrl = get options ''baseUrl''; token = get options ''token'';
          taskId = get options ''taskId''; waitForFinish = get options ''waitForFinish'';
          body = get options ''body''; contentType = get options ''contentType'';
          timeout = get options ''timeout''; memory = get options ''memory'';
          build = get options ''build''; webhooks = get options ''webhooks'';
          input = get options ''input'' in
      case runTask_checks options of
        Some e \<Rightarrow> (Throws e, log)
      | None \<Rightarrow>
          (case replaceSlashWithTilde taskId of
             Inl e \<Rightarrow> (Throws e, log)
           | Inr safeTaskId \<Rightarrow>
          (let query =
                 set_if (truthy webhooks) ''webhooks'' (stringifyWebhooksToBase64 E webhooks)
                 (set_if (truthy build) ''build'' build
                 (set_if (truthy memory) ''memory'' memory
                 (set_if (truthy timeout) ''timeout'' timeout
                 (set_if (truthy waitForFinish) ''waitForFinish'' waitForFinish
                    [(''token'', token)]))));
               opts0 =
                 [(''url'', Str (to_string baseUrl @ tasks_BASE_PATH @ ''/'' @ safeTaskId
                                 @ ''/runs'')),
                  (''method'', Str ''POST''),
                  (''qs'', Obj query)];
               checked =
                 (if truthy body then
                    (if truthy input then Inl ConflictingParametersError
                     else case first_error
                                 [checkParamOrThrow contentType ''contentType'' tMaybeString,
                                  checkParamOrThrow body ''body'' tString] of
                            Some e \<Rightarrow> Inl e
                          | None \<Rightarrow> Inr
                              (set_if (truthy contentType) ''headers''
                                 (Obj [(''Content-Type'', contentType)])
                                 (set_prop ''body'' body opts0)))
                  else Inr opts0) in
           case checked of
             Inl e \<Rightarrow> (Throws e, log)
           | Inr opts1 \<Rightarrow>
               (let opts = (if truthy input
                            then set_prop ''json'' (Bool True) (set_prop ''body'' input opts1)
                            else opts1) in
                single E log opts
                  (\<lambda>p. then_p
                          (then_p
                             (then_p p (\<lambda>response. if truthy (get opts ''json'') then Inr response
                                                   else JSON_parse E response))
                             pluckData)
                          (parseDateFields E))))))"

section \<open>Dataset client (class-style module)\<close>

text \<open>
  The class-style clients validate with the library \<open>ow\<close>: \<open>ow(value, predicate)\<close> throws an
  \<open>ArgumentError\<close> when the value does not satisfy the predicate. \<open>ow.object\<close> accepts every
  value that is an object to the language: a plain object, an array, a Buffer or a function,
  but not \<open>undefined\<close>, \<open>null\<close>, a boolean, a number or a string. \<open>exactShape\<close> then asks that
  every own enumerable key of the value occurs in the shape and that the value read under
  each key of the shape satisfies the predicate of that key; an \<open>ow.optional\<close> predicate also
  accepts \<open>undefined\<close>. The own keys of an array or a Buffer are the indices of its elements, a
  function has none. An inherited property is read as \<open>undefined\<close>: the shapes of this file
  name none of an array or of a function, and of a Buffer only \<open>offset\<close>, a number, under a
  key whose predicate is an optional number, so that the outcome is the same.
\<close>

datatype ow_pred = OwBoolean | OwNumber | OwString | OwArrayOfString

fun is_Str :: "jsval \<Rightarrow> bool" where
  "is_Str (Str _) = True"
| "is_Str _ = False"

fun ow_matches :: "ow_pred \<Rightarrow> jsval \<Rightarrow> bool" where
  "ow_matches OwBoolean (Bool _) = True"
| "ow_matches OwNumber (Num _) = True"
| "ow_matches OwString (Str _) = True"
| "ow_matches OwArrayOfString (Arr xs) = list_all is_Str xs"
| "ow_matches _ _ = False"

fun is_object :: "jsval \<Rightarrow> bool" where
  "is_object (Obj _) = True"
| "is_object (Arr _) = True"
| "is_object (Buf _) = True"
| "is_object (Func _) = True"
| "is_object _ = False"

fun own_props :: "jsval \<Rightarrow> obj" where
  "own_props (Obj ob) = ob"
| "own_props (Arr xs) = zip (map digits [0..<length xs]) xs"
| "own_props (Buf bs) = zip (map digits [0..<length bs]) (map (\<lambda>b. Num (int b)) bs)"
| "own_props _ = []"

definition ow_optional_exactShape :: "(string \<times> ow_pred) list \<Rightarrow> jsval \<Rightarrow> error option" where
  "ow_optional_exactShape shape v =
     (if is_object v
         \<and> list_all (\<lambda>(k, x). k \<in> set (map fst shape)) (own_props v)
         \<and> list_all (\<lambda>(k, p). get (own_props v) k = Undefined
                               \<or> ow_matches p (get (own_props v) k)) shape
      then None else Some (ArgumentError ''options''))"

text \<open>
  \<open>this._url\<close> and \<open>this._params\<close> come from the base class \<open>ResourceClient\<close>, which is not
  among the sources; the client carries them. \<open>this.httpClient.call\<close> is the transport.
\<close>

record resource_client =
  url_of :: "string \<Rightarrow> string"
  params_of :: "jsval \<Rightarrow> jsval"

definition listItems_shape :: "(string \<times> ow_pred) list" where
  "listItems_shape =
     [(''clean'', OwBoolean), (''desc'', OwBoolean), (''fields'', OwArrayOfString),
      (''omit'', OwArrayOfString), (''limit'', OwNumber), (''offset'', OwNumber),
      (''skipEmpty'', OwBoolean), (''skipHidden'', OwBoolean), (''unwind'', OwString)]"

text \<open>
  \<open>async listItems(options = {})\<close>: an \<open>async\<close> method never throws at the call site, whatever
  its body throws rejects the promise it returns.
\<close>

definition listItems :: "env \<Rightarrow> resource_client \<Rightarrow> obj list \<Rightarrow> jsval \<Rightarrow> call \<times> obj list" where
  "listItems E this log options0 =
     (let options = (if options0 = Undefined then Obj [] else options0) in
      case ow_optional_exactShape listItems_shape options of
        Some e \<Rightarrow> (Promise (Inl e), log)
      | None \<Rightarrow>
          (case requestPromise E log
                  [(''url'', Str (url_of this ''items'')),
                   (''method'', Str ''GET''),
                   (''params'', params_of this options)] of
             (Inl e, log1) \<Rightarrow> (Promise (Inl e), log1)
           | (Inr response, log1) \<Rightarrow>
               (Promise (case response of
                           Obj r \<Rightarrow> createPaginationList E r
                         | _ \<Rightarrow> Inl (TypeError ''Cannot read property of response'')),
                log1)))"

section \<open>The client object\<close>

text \<open>
  Objects that are shared and mutated live in a heap, a list of objects addressed by
  position. A client is the address of its \<open>instanceOpts\<close>.
\<close>

type_synonym heap = "obj list"

definition getDefaultOptions :: "jsval \<Rightarrow> obj" where
  "getDefaultOptions APIFY_ACT_RUN_ID =
     [(''protocol'', Str ''https''),
      (''host'', Str ''api.apifier.com''),
      (''basePath'', Str []),
      (''storeId'', APIFY_ACT_RUN_ID)]"

fun is_function :: "jsval \<Rightarrow> bool" where
  "is_function (Func _) = True"
| "is_function _ = False"

text \<open>
  The constructor: \<open>nativePromise\<close> is the global \<open>Promise\<close> of the host (\<open>undefined\<close> where
  there is none), \<open>APIFY_ACT_RUN_ID\<close> the environment variable.
\<close>

definition ApifyClient :: "jsval \<Rightarrow> jsval \<Rightarrow> heap \<Rightarrow> obj \<Rightarrow> error + heap \<times> nat" where
  "ApifyClient nativePromise APIFY_ACT_RUN_ID h options =
     (let instanceOpts = assign (assign [] (getDefaultOptions APIFY_ACT_RUN_ID))
                           (omit options ''_overrideMethodGroups'') in
      if \<not> truthy (get instanceOpts ''promise'')
      then (if is_function nativePromise
            then Inr (h @ [set_prop ''promise'' nativePromise instanceOpts], length h)
            else Inl (JsError (''The '' @ [CHR 0x22] @ ''options.promise'' @ [CHR 0x22]
                       @ '' parameter is required when native Promise is not available.'')))
      else Inr (h @ [instanceOpts], length h))"

definition required_error :: "string \<Rightarrow> error" where
  "required_error key =
     JsError ([CHR 0x22] @ ''options.'' @ key @ [CHR 0x22] @ '' parameter is required'')"

text \<open>
  The text that \<open>methodDecorator\<close> stores as \<open>baseUrl\<close>. Nothing has checked that the parts
  are strings (a port is a number as a rule), so each is converted where it is added.
\<close>

definition baseUrl_of :: "env \<Rightarrow> obj \<Rightarrow> string" where
  "baseUrl_of E mergedOpts =
     string_of E (get mergedOpts ''protocol'') @ ''://'' @ string_of E (get mergedOpts ''host'')
     @ (if truthy (get mergedOpts ''port'') then '':'' @ string_of E (get mergedOpts ''port'')
        else [])
     @ string_of E (get mergedOpts ''basePath'')"

text \<open>
  \<open>methodDecorator\<close>, up to the call of the method: the options of the call are merged into
  a fresh object, which is then handed to the method. The result is the new heap and the
  address of \<open>mergedOpts\<close>.
\<close>

definition methodDecorator :: "env \<Rightarrow> heap \<Rightarrow> nat \<Rightarrow> obj \<Rightarrow> error + heap \<times> nat" where
  "methodDecorator E h client callOpts =
     (let instanceOpts = h ! client;
          mergedOpts = assign (assign [] instanceOpts) callOpts in
      case first_error
             (map (\<lambda>key. if \<not> truthy (get instanceOpts key) then Some (required_error key)
                         else None)
                [''protocol'', ''host'', ''promise'']) of
        Some e \<Rightarrow> Inl e
      | None \<Rightarrow> Inr (h @ [set_prop ''baseUrl'' (Str (baseUrl_of E mergedOpts)) mergedOpts],
                     length h))"


text \<open>
  \<open>_.forEach(obj, iteratee)\<close> of underscore (1.8 or later: the constructor uses \<open>_.mapObject\<close>).
  An object whose \<open>length\<close> is a number from 0 to \<open>MAX_ARRAY_INDEX\<close> is walked as an array:
  the iteratee is called with \<open>obj[i]\<close> and \<open>i\<close> for every index \<open>i\<close> below the length, and the
  other keys of the object are not visited. Any other object is walked by its own keys, in
  their order. \<open>forEach_calls\<close> lists the calls in order, each as the key and the value handed
  to the iteratee (an index is a property name by its decimal digits).
\<close>

definition MAX_ARRAY_INDEX :: int where
  "MAX_ARRAY_INDEX = 2 ^ 53 - 1"

definition isArrayLike :: "obj \<Rightarrow> bool" where
  "isArrayLike ob =
     (case get ob ''length'' of
        Num n \<Rightarrow> 0 \<le> n \<and> n \<le> MAX_ARRAY_INDEX
      | _ \<Rightarrow> False)"

definition forEach_calls :: "obj \<Rightarrow> (string \<times> jsval) list" where
  "forEach_calls ob =
     (if isArrayLike ob
      then (case get ob ''length'' of
              Num n \<Rightarrow> map (\<lambda>i. (digits i, get ob (digits i))) [0..<nat n]
            | _ \<Rightarrow> [])
      else ob)"

text \<open>
  \<open>setOptions\<close> hands \<open>newOptions\<close> to \<open>_.forEach\<close>, with an iteratee that writes the value
  under the key into \<open>instanceOpts\<close>, in place.
\<close>

definition setOptions :: "nat \<Rightarrow> obj \<Rightarrow> heap \<Rightarrow> heap" where
  "setOptions client newOptions h =
     h[client := foldl (\<lambda>instanceOpts (key, val). set_prop key val instanceOpts)
                   (h ! client) (forEach_calls newOptions)]"

section \<open>A transport for worked examples\<close>

text \<open>
  An environment whose transport answers every request with the same outcome, whose
  compression yields the given bytes, and whose other helpers pass their argument through.
\<close>

definition example_env :: "promise \<Rightarrow> nat list \<Rightarrow> env" where
  "example_env answer gz =
     \<lparr>respond = (\<lambda>log. answer),
      gzipPromise = (\<lambda>b. Inr gz),
      encodeBody = (\<lambda>body contentType. body),
      JSON_stringify = (\<lambda>v. Str ''[]''),
      JSON_parse = Inr,
      parseDateFields = Inr,
      stringifyWebhooksToBase64 = (\<lambda>v. v),
      Number = (\<lambda>v. v),
      String = to_string\<rparr>"

definition example_client :: resource_client where
  "example_client =
     \<lparr>url_of = (\<lambda>path. ''https://api.apify.com/v2/datasets/201/'' @ path),
      params_of = (\<lambda>options. options)\<rparr>"

text \<open>
  The instance options of a client constructed with a protocol, a host, a base path and a
  port, and the options that \<open>methodDecorator\<close> merges from them for a call without options
  of its own.
\<close>

definition example_instanceOpts :: "string \<Rightarrow> obj" where
  "example_instanceOpts host =
     [(''protocol'', Str ''http''), (''host'', Str host), (''basePath'', Str ''/mypath-1''),
      (''storeId'', Undefined), (''port'', Num 80),
      (''promise'', Func ''function Promise() { [native code] }'')]"

definition example_mergedOpts :: "string \<Rightarrow> obj" where
  "example_mergedOpts host =
     example_instanceOpts host @ [(''baseUrl'', Str (''http://'' @ host @ '':80/mypath-1''))]"

section \<open>Basic facts\<close>

lemma checked_Inr:
  "(case c of None \<Rightarrow> Inr x | Some e \<Rightarrow> Inl e) = Inr opts \<Longrightarrow> opts = x"
  by (cases c) auto

lemma get_hit: "get ((k, v) # ob) k = v"
  by (simp add: get_def)

lemma get_miss: "k' \<noteq> k \<Longrightarrow> get ((k', v) # ob) k = get ob k"
  by (simp add: get_def)

lemma get_Nil: "get [] k = Undefined"
  by (simp add: get_def)

lemma first_error_two_Str:
  "first_error [checkParamOrThrow (Str a) n1 tString, checkParamOrThrow (Str b) n2 tString] = None"
  by (simp add: checkParamOrThrow_def absent_def)

lemma first_error_three_Str:
  "first_error [checkParamOrThrow (Str a) n1 tString, checkParamOrThrow (Str b) n2 tString,
                checkParamOrThrow (Str c) n3 tString] = None"
  by (simp add: checkParamOrThrow_def absent_def)

lemma catch_not_found:
  "catch_p (Inl e) catchNotFoundOrThrow = (if e = HttpError 404 then Inr Null else Inl e)"
  by (simp add: catch_p_def catchNotFoundOrThrow_def)

lemma then_p_Inl: "then_p (Inl e) f = Inl e"
  by (simp add: then_p_def)

section \<open>Pagination lists: where the count comes from\<close>

text \<open>
  C1, as amended. \<open>listItems\<close> of the dataset client returns a pagination list whose \<open>count\<close>
  is the length of the \<open>items\<close> array it received, whatever the pagination headers of the
  response say. \<open>wrapArray\<close> of the crawlers module copies \<open>count\<close> from the header
  \<open>x-apifier-pagination-count\<close> as it is.
\<close>

theorem pagination_count_from_items:
  assumes "ow_optional_exactShape listItems_shape (if options = Undefined then Obj [] else options) = None"
      and "respond E (log @ [[(''url'', Str (url_of this ''items'')), (''method'', Str ''GET''),
                   (''params'', params_of this (if options = Undefined then Obj [] else options))]]) = Inr (Obj r)"
      and "get r ''data'' = Arr xs" and "get r ''headers'' = Obj h"
      and "get response ''headers'' = Obj hs"
  shows "(\<exists>pl. fst (listItems E this log options) = Promise (Inr (Obj pl))
            \<and> get pl ''items'' = Arr xs \<and> get pl ''count'' = Num (int (length xs)))
       \<and> (\<exists>pl. wrapArray response = Inr (Obj pl)
            \<and> get pl ''items'' = get response ''body''
            \<and> get pl ''count'' = get hs ''x-apifier-pagination-count'')"
  using assms
  by (simp add: listItems_def Let_def requestPromise_def createPaginationList_def wrapArray_def get_def)

text \<open>The theorem at a response for one item whose count header says 7.\<close>

theorem pagination_count_from_items_witness:
  "(\<exists>pl. fst (listItems
               (example_env (Inr (Obj [(''data'', Arr [Str ''item'']),
                                       (''headers'', Obj [(''x-apify-pagination-count'', Str ''7'')])])) [])
               example_client [] (Obj [(''limit'', Num 1), (''offset'', Num 1)]))
            = Promise (Inr (Obj pl))
          \<and> get pl ''items'' = Arr [Str ''item''] \<and> get pl ''count'' = Num 1)
   \<and> (\<exists>pl. wrapArray [(''body'', Arr []), (''headers'', Obj [(''x-apifier-pagination-count'', Str ''3'')])]
             = Inr (Obj pl)
          \<and> get pl ''items'' = Arr []
          \<and> get pl ''count'' = Str ''3'')"
  using pagination_count_from_items
    [of "Obj [(''limit'', Num 1), (''offset'', Num 1)]"
        "example_env (Inr (Obj [(''data'', Arr [Str ''item'']),
                                (''headers'', Obj [(''x-apify-pagination-count'', Str ''7'')])])) []"
        "[]" example_client
        "[(''data'', Arr [Str ''item'']), (''headers'', Obj [(''x-apify-pagination-count'', Str ''7'')])]"
        "[Str ''item'']" "[(''x-apify-pagination-count'', Str ''7'')]"
        "[(''body'', Arr []), (''headers'', Obj [(''x-apifier-pagination-count'', Str ''3'')])]"
        "[(''x-apifier-pagination-count'', Str ''3'')]"]
  by (simp add: ow_optional_exactShape_def listItems_shape_def get_def example_env_def)

text \<open>
  C1 as stated fails for \<open>wrapArray\<close>: for two items and a count header of 5 the returned
  \<open>count\<close> is the header's string, not the length 2 of \<open>items\<close>.
\<close>

theorem wrapArray_count_counterexample:
  "wrapArray [(''body'', Arr [Str ''crawler1'', Str ''crawler2'']),
              (''headers'', Obj [(''x-apifier-pagination-count'', Str ''5'')])]
   = Inr (Obj [(''items'', Arr [Str ''crawler1'', Str ''crawler2'']),
               (''total'', Undefined), (''offset'', Undefined),
               (''count'', Str ''5''), (''limit'', Undefined)])
   \<and> js_length (Arr [Str ''crawler1'', Str ''crawler2'']) = Inr (Num 2)
   \<and> Str ''5'' \<noteq> Num 2"
  by (simp add: wrapArray_def get_def)

section \<open>Identifiers in the path\<close>

text \<open>
  C7. \<open>replaceSlashWithTilde\<close> replaces the first slash of an identifier only: for the task
  identifier \<open>user/my/task\<close> the path segment that \<open>getTask\<close> and \<open>updateTask\<close> send is
  \<open>user~my/task\<close>, in which a slash is left.
\<close>

theorem replaceSlashWithTilde_first_only:
  "replaceSlashWithTilde (Str ''user/my/task'') = Inr ''user~my/task''
   \<and> snd (getTask (example_env (Inr Null) []) []
             [(''baseUrl'', Str ''http://h''), (''token'', Str ''t''),
              (''taskId'', Str ''user/my/task'')])
     = [[(''url'', Str ''http://h/v2/actor-tasks/user~my/task''), (''json'', Bool True),
         (''method'', Str ''GET''), (''qs'', Obj [(''token'', Str ''t'')])]]
   \<and> snd (updateTask (example_env (Inr Null) []) []
             [(''baseUrl'', Str ''http://h''), (''token'', Str ''t''),
              (''taskId'', Str ''user/my/task''), (''task'', Obj [(''name'', Str ''new'')])])
     = [[(''url'', Str ''http://h/v2/actor-tasks/user~my/task''), (''json'', Bool True),
         (''method'', Str ''PUT''), (''qs'', Obj [(''token'', Str ''t'')]),
         (''body'', Obj [(''name'', Str ''new'')])]]"
  by (simp add: getTask_def updateTask_def get_def checkParamOrThrow_def absent_def single_def
        requestPromise_def tasks_BASE_PATH_def omit_def)

section \<open>The retry ceiling of the request-queue operations\<close>

lemma getOrCreateQueue_no_override:
  "getOrCreateQueue_opts options = Inr opts \<Longrightarrow> get opts ''expBackOffMaxRepeats'' = Undefined"
  unfolding getOrCreateQueue_opts_def Let_def
  by (drule checked_Inr) (simp add: get_hit get_miss get_Nil)

lemma listQueues_no_override:
  "listQueues_opts options = Inr opts \<Longrightarrow> get opts ''expBackOffMaxRepeats'' = Undefined"
  unfolding listQueues_opts_def Let_def
  by (drule checked_Inr) (simp add: get_hit get_miss get_Nil)

lemma getQueue_no_override:
  "getQueue_opts options = Inr opts \<Longrightarrow> get opts ''expBackOffMaxRepeats'' = Undefined"
  unfolding getQueue_opts_def Let_def
  by (drule checked_Inr) (simp add: get_hit get_miss get_Nil)

lemma deleteQueue_no_override:
  "deleteQueue_opts options = Inr opts \<Longrightarrow> get opts ''expBackOffMaxRepeats'' = Undefined"
  unfolding deleteQueue_opts_def Let_def
  by (drule checked_Inr) (simp add: get_hit get_miss get_Nil)

lemma addRequest_override:
  "addRequest_opts options = Inr opts \<Longrightarrow> get opts ''expBackOffMaxRepeats'' = Num 9"
  unfolding addRequest_opts_def Let_def
  by (drule checked_Inr)
     (simp add: get_hit get_miss get_Nil REQUEST_ENDPOINTS_EXP_BACKOFF_MAX_REPEATS_def)

lemma getRequest_override:
  "getRequest_opts options = Inr opts \<Longrightarrow> get opts ''expBackOffMaxRepeats'' = Num 9"
  unfolding getRequest_opts_def Let_def
  by (drule checked_Inr)
     (simp add: get_hit get_miss get_Nil REQUEST_ENDPOINTS_EXP_BACKOFF_MAX_REPEATS_def)

lemma deleteRequest_override:
  "deleteRequest_opts options = Inr opts \<Longrightarrow> get opts ''expBackOffMaxRepeats'' = Num 9"
  unfolding deleteRequest_opts_def Let_def
  by (drule checked_Inr)
     (simp add: get_hit get_miss get_Nil REQUEST_ENDPOINTS_EXP_BACKOFF_MAX_REPEATS_def)

lemma getHead_override:
  "getHead_opts options = Inr opts \<Longrightarrow> get opts ''expBackOffMaxRepeats'' = Num 9"
  unfolding getHead_opts_def Let_def
  by (drule checked_Inr)
     (simp add: get_hit get_miss get_Nil REQUEST_ENDPOINTS_EXP_BACKOFF_MAX_REPEATS_def)

lemma updateRequest_override:
  assumes "updateRequest_opts options = Inr opts"
  shows "get opts ''expBackOffMaxRepeats'' = Num 9"
proof (cases "checkParamOrThrow (get options ''request'') ''request'' tObject")
  case (Some e)
  with assms show ?thesis by (simp add: updateRequest_opts_def Let_def)
next
  case None
  show ?thesis
  proof (cases "if truthy (get options ''requestId'') then Inr (get options ''requestId'')
                else js_member (get options ''request'') ''id''")
    case (Inl e)
    with assms None show ?thesis by (simp add: updateRequest_opts_def Let_def)
  next
    case (Inr safeRequestId)
    with assms None show ?thesis
      unfolding updateRequest_opts_def Let_def
      apply (simp only: option.case sum.case)
      by (drule checked_Inr)
         (simp add: get_hit get_miss get_Nil REQUEST_ENDPOINTS_EXP_BACKOFF_MAX_REPEATS_def)
  qed
qed

lemma getDataset_no_override:
  "snd (getDataset E log options) = log
   \<or> (\<exists>r. snd (getDataset E log options) = log @ [r]
         \<and> get r ''expBackOffMaxRepeats'' = Undefined)"
  by (cases "first_error
             [checkParamOrThrow (get options ''baseUrl'') ''baseUrl'' tString,
              checkParamOrThrow (get options ''datasetId'') ''datasetId'' tString]")
     (simp_all add: getDataset_def Let_def single_def requestPromise_def get_hit get_miss get_Nil
        del: first_error.simps)

lemma listTasks_no_override:
  "snd (listTasks E log options) = log
   \<or> (\<exists>r. snd (listTasks E log options) = log @ [r]
         \<and> get r ''expBackOffMaxRepeats'' = Undefined)"
  by (cases "listTasks_checks options")
     (simp_all add: listTasks_def Let_def single_def requestPromise_def get_hit get_miss get_Nil)

text \<open>
  C4, as amended. The operations of the request-queue module that address the requests of
  a queue (\<open>addRequest\<close>, \<open>getRequest\<close>, \<open>deleteRequest\<close>, \<open>updateRequest\<close>, \<open>getHead\<close>) dispatch
  their request with \<open>expBackOffMaxRepeats\<close> 9. The operations on the queue itself
  (\<open>getOrCreateQueue\<close>, \<open>listQueues\<close>, \<open>getQueue\<close>, \<open>deleteQueue\<close>) dispatch theirs without the
  override. In both cases the descriptor built from the options is the one request issued.
  Operations of other modules, such as \<open>getDataset\<close> and \<open>listTasks\<close>, issue nothing or one request
  without the override.
\<close>

theorem queue_backoff_override:
  assumes "queue_opts oper options = Inr opts"
  shows "snd (queue_call oper E log options) = log @ [opts]
       \<and> get opts ''expBackOffMaxRepeats''
           = (if oper \<in> {AddRequest, GetRequest, DeleteRequest, UpdateRequest, GetHead}
              then Num 9 else Undefined)
       \<and> (snd (getDataset E log doptions) = log
           \<or> (\<exists>r. snd (getDataset E log doptions) = log @ [r]
                 \<and> get r ''expBackOffMaxRepeats'' = Undefined))
       \<and> (snd (listTasks E log toptions) = log
           \<or> (\<exists>r. snd (listTasks E log toptions) = log @ [r]
                 \<and> get r ''expBackOffMaxRepeats'' = Undefined))"
proof (intro conjI)
  show "snd (queue_call oper E log options) = log @ [opts]"
    using assms by (simp add: queue_call_def single_def requestPromise_def)
next
  show "get opts ''expBackOffMaxRepeats''
           = (if oper \<in> {AddRequest, GetRequest, DeleteRequest, UpdateRequest, GetHead}
              then Num 9 else Undefined)"
    using assms
    by (cases oper)
       (simp_all add: getOrCreateQueue_no_override listQueues_no_override getQueue_no_override
          deleteQueue_no_override addRequest_override getRequest_override
          deleteRequest_override updateRequest_override getHead_override)
next
  show "snd (getDataset E log doptions) = log
           \<or> (\<exists>r. snd (getDataset E log doptions) = log @ [r]
                 \<and> get r ''expBackOffMaxRepeats'' = Undefined)"
    by (rule getDataset_no_override)
next
  show "snd (listTasks E log toptions) = log
           \<or> (\<exists>r. snd (listTasks E log toptions) = log @ [r]
                 \<and> get r ''expBackOffMaxRepeats'' = Undefined)"
    by (rule listTasks_no_override)
qed

text \<open>The theorem at an \<open>addRequest\<close> call.\<close>

theorem queue_backoff_override_witness:
  "queue_opts AddRequest
     [(''baseUrl'', Str ''http://h''), (''queueId'', Str ''q''), (''token'', Str ''t''),
      (''request'', Obj [(''url'', Str ''http://example.com'')])]
   = Inr [(''url'', Str ''http://h/v2/request-queues/q/requests''),
          (''json'', Bool True), (''method'', Str ''POST''),
          (''body'', Obj [(''url'', Str ''http://example.com'')]),
          (''qs'', Obj [(''forefront'', Bool False), (''token'', Str ''t'')]),
          (''expBackOffMaxRepeats'', Num 9)]
   \<and> snd (queue_call AddRequest (example_env (Inr Null) []) []
            [(''baseUrl'', Str ''http://h''), (''queueId'', Str ''q''), (''token'', Str ''t''),
             (''request'', Obj [(''url'', Str ''http://example.com'')])])
     = [[(''url'', Str ''http://h/v2/request-queues/q/requests''),
         (''json'', Bool True), (''method'', Str ''POST''),
         (''body'', Obj [(''url'', Str ''http://example.com'')]),
         (''qs'', Obj [(''forefront'', Bool False), (''token'', Str ''t'')]),
         (''expBackOffMaxRepeats'', Num 9)]]"
proof -
  have h: "queue_opts AddRequest
     [(''baseUrl'', Str ''http://h''), (''queueId'', Str ''q''), (''token'', Str ''t''),
      (''request'', Obj [(''url'', Str ''http://example.com'')])]
   = Inr [(''url'', Str ''http://h/v2/request-queues/q/requests''),
          (''json'', Bool True), (''method'', Str ''POST''),
          (''body'', Obj [(''url'', Str ''http://example.com'')]),
          (''qs'', Obj [(''forefront'', Bool False), (''token'', Str ''t'')]),
          (''expBackOffMaxRepeats'', Num 9)]"
    by (simp add: addRequest_opts_def get_def checkParamOrThrow_def absent_def rq_BASE_PATH_def
          REQUEST_ENDPOINTS_EXP_BACKOFF_MAX_REPEATS_def)
  show ?thesis
    using h queue_backoff_override [OF h, of "example_env (Inr Null) []" "[]"] by simp
qed

text \<open>
  C4 as stated fails for \<open>getQueue\<close>: the one request it issues has no
  \<open>expBackOffMaxRepeats\<close>.
\<close>

theorem getQueue_backoff_counterexample:
  "snd (queue_call GetQueue (example_env (Inr Null) []) []
          [(''baseUrl'', Str ''http://h''), (''queueId'', Str ''q'')])
   = [[(''url'', Str ''http://h/v2/request-queues/q''), (''json'', Bool True),
       (''method'', Str ''GET''), (''qs'', Obj [])]]
   \<and> get [(''url'', Str ''http://h/v2/request-queues/q''), (''json'', Bool True),
           (''method'', Str ''GET''), (''qs'', Obj [])] ''expBackOffMaxRepeats'' = Undefined"
  by (simp add: queue_call_def getQueue_opts_def get_def checkParamOrThrow_def absent_def
        rq_BASE_PATH_def single_def requestPromise_def set_if_def)

section \<open>Not found\<close>

text \<open>
  C3, as amended. When the transport fails with an error, a lookup that chains
  \<open>catchNotFoundOrThrow\<close> (\<open>getDataset\<close>, \<open>getStore\<close>, \<open>getTask\<close>, \<open>getQueue\<close>, \<open>getRequest\<close>) resolves to
  \<open>null\<close> if the error is an HTTP 404 and rejects with the error otherwise. The delete
  operations (\<open>deleteDataset\<close>, \<open>deleteRecord\<close>, \<open>deleteTask\<close>, \<open>deleteQueue\<close>, \<open>deleteRequest\<close>) and the
  other queue operations reject with every error, an HTTP 404 included.
\<close>

theorem not_found_is_null_for_lookups_only:
  assumes "respond E = (\<lambda>log. Inl e)"
      and "get doptions ''baseUrl'' = Str b1" and "get doptions ''datasetId'' = Str d"
      and "get soptions ''baseUrl'' = Str b2" and "get soptions ''storeId'' = Str s"
      and "get soptions ''key'' = Str k"
      and "get toptions ''baseUrl'' = Str b3" and "get toptions ''token'' = Str t"
      and "get toptions ''taskId'' = Str i"
      and "queue_opts oper qoptions = Inr opts"
  shows "fst (getDataset E log doptions)
           = Promise (if e = HttpError 404 then Inr Null else Inl e)
       \<and> fst (getStore E log soptions)
           = Promise (if e = HttpError 404 then Inr Null else Inl e)
       \<and> fst (getTask E log toptions)
           = Promise (if e = HttpError 404 then Inr Null else Inl e)
       \<and> fst (deleteDataset E log doptions) = Promise (Inl e)
       \<and> fst (deleteRecord E log soptions) = Promise (Inl e)
       \<and> fst (deleteTask E log toptions) = Promise (Inl e)
       \<and> fst (queue_call oper E log qoptions)
           = Promise (if oper \<in> {GetQueue, GetRequest} \<and> e = HttpError 404 then Inr Null
                      else Inl e)"
proof (intro conjI)
  show "fst (getDataset E log doptions) = Promise (if e = HttpError 404 then Inr Null else Inl e)"
    using assms(1-3)
    by (simp add: getDataset_def first_error_two_Str single_def requestPromise_def
          then_p_Inl catch_not_found del: first_error.simps)
next
  show "fst (getStore E log soptions) = Promise (if e = HttpError 404 then Inr Null else Inl e)"
    using assms(1,4,5)
    by (simp add: getStore_def first_error_two_Str single_def requestPromise_def
          then_p_Inl catch_not_found del: first_error.simps)
next
  show "fst (getTask E log toptions) = Promise (if e = HttpError 404 then Inr Null else Inl e)"
    using assms(1,7-9)
    by (simp add: getTask_def first_error_three_Str single_def requestPromise_def
          then_p_Inl catch_not_found del: first_error.simps)
next
  show "fst (deleteDataset E log doptions) = Promise (Inl e)"
    using assms(1-3)
    by (simp add: deleteDataset_def first_error_two_Str single_def requestPromise_def
          del: first_error.simps)
next
  show "fst (deleteRecord E log soptions) = Promise (Inl e)"
    using assms(1,4-6)
    by (simp add: deleteRecord_def first_error_three_Str single_def requestPromise_def
          del: first_error.simps)
next
  show "fst (deleteTask E log toptions) = Promise (Inl e)"
    using assms(1,7-9)
    by (simp add: deleteTask_def first_error_three_Str single_def requestPromise_def
          then_p_Inl del: first_error.simps)
next
  show "fst (queue_call oper E log qoptions)
           = Promise (if oper \<in> {GetQueue, GetRequest} \<and> e = HttpError 404 then Inr Null
                      else Inl e)"
    using assms(1,10)
    by (cases oper)
       (simp_all add: queue_call_def single_def requestPromise_def then_p_Inl catch_not_found)
qed

text \<open>The theorem at a transport that answers 404.\<close>

theorem not_found_is_null_for_lookups_only_witness:
  "fst (getDataset (example_env (Inl (HttpError 404)) []) []
          [(''baseUrl'', Str ''http://h''), (''datasetId'', Str ''d'')]) = Promise (Inr Null)
   \<and> fst (getStore (example_env (Inl (HttpError 404)) []) []
          [(''baseUrl'', Str ''http://h''), (''storeId'', Str ''s''), (''key'', Str ''k'')])
       = Promise (Inr Null)
   \<and> fst (getTask (example_env (Inl (HttpError 404)) []) []
          [(''baseUrl'', Str ''http://h''), (''token'', Str ''t''), (''taskId'', Str ''i'')])
       = Promise (Inr Null)
   \<and> fst (deleteDataset (example_env (Inl (HttpError 404)) []) []
          [(''baseUrl'', Str ''http://h''), (''datasetId'', Str ''d'')])
       = Promise (Inl (HttpError 404))
   \<and> fst (deleteRecord (example_env (Inl (HttpError 404)) []) []
          [(''baseUrl'', Str ''http://h''), (''storeId'', Str ''s''), (''key'', Str ''k'')])
       = Promise (Inl (HttpError 404))
   \<and> fst (deleteTask (example_env (Inl (HttpError 404)) []) []
          [(''baseUrl'', Str ''http://h''), (''token'', Str ''t''), (''taskId'', Str ''i'')])
       = Promise (Inl (HttpError 404))
   \<and> fst (queue_call GetQueue (example_env (Inl (HttpError 404)) []) []
          [(''baseUrl'', Str ''http://h''), (''queueId'', Str ''q'')]) = Promise (Inr Null)"
proof -
  have q: "queue_opts GetQueue [(''baseUrl'', Str ''http://h''), (''queueId'', Str ''q'')]
    = Inr [(''url'', Str ''http://h/v2/request-queues/q''), (''json'', Bool True),
           (''method'', Str ''GET''), (''qs'', Obj [])]"
    by (simp add: getQueue_opts_def get_def checkParamOrThrow_def absent_def
          rq_BASE_PATH_def set_if_def)
  have r: "respond (example_env (Inl (HttpError 404)) []) = (\<lambda>log. Inl (HttpError 404))"
    by (simp add: example_env_def)
  show ?thesis
    using not_found_is_null_for_lookups_only
            [where E = "example_env (Inl (HttpError 404)) []" and e = "HttpError 404"
               and doptions = "[(''baseUrl'', Str ''http://h''), (''datasetId'', Str ''d'')]"
               and soptions = "[(''baseUrl'', Str ''http://h''), (''storeId'', Str ''s''),
                                (''key'', Str ''k'')]"
               and toptions = "[(''baseUrl'', Str ''http://h''), (''token'', Str ''t''),
                                (''taskId'', Str ''i'')]"
               and oper = GetQueue
               and qoptions = "[(''baseUrl'', Str ''http://h''), (''queueId'', Str ''q'')]"
               and log = "[]", OF r _ _ _ _ _ _ _ _ q]
    by (simp add: get_def)
qed

text \<open>C3 as stated fails for \<open>deleteDataset\<close>: on a 404 the promise is rejected.\<close>

theorem deleteDataset_not_found_counterexample:
  "deleteDataset (example_env (Inl (HttpError 404)) []) []
     [(''baseUrl'', Str ''http://h''), (''datasetId'', Str ''d'')]
   = (Promise (Inl (HttpError 404)),
      [[(''url'', Str ''http://h/v2/datasets/d''), (''json'', Bool True),
        (''method'', Str ''DELETE'')]])"
  by (simp add: deleteDataset_def get_def checkParamOrThrow_def absent_def single_def
        requestPromise_def datasets_BASE_PATH_def example_env_def)

section \<open>Writes: compression and the signed-URL upload\<close>


lemma putRecord_log_direct:
  assumes "putRecord_checks E options = None"
      and "gzipPromise E (putRecord_encodedBody E options) = Inr gz"
      and "length gz < 262144"
  shows "snd (putRecord E log options) = log @ [putRecord_requestOpts options gz]"
  using assms
  by (simp add: putRecord_def Let_def single_def requestPromise_def
        SIGNED_URL_UPLOAD_MIN_BYTESIZE_def)

lemma putRecord_log_signed:
  assumes "putRecord_checks E options = None"
      and "gzipPromise E (putRecord_encodedBody E options) = Inr gz"
      and "262144 \<le> length gz"
  shows "snd (putRecord E log options) =
           (case respond E (log @ [putRecord_uploadUrlOpts options]) of
              Inl e \<Rightarrow> log @ [putRecord_uploadUrlOpts options]
            | Inr response \<Rightarrow>
                (case signedUrl_of response of
                   Inl e \<Rightarrow> log @ [putRecord_uploadUrlOpts options]
                 | Inr signedUrl \<Rightarrow>
                     log @ [putRecord_uploadUrlOpts options,
                            assign (assign [] (putRecord_requestOpts options gz))
                              [(''url'', signedUrl)]]))"
  using assms
  by (simp add: putRecord_def Let_def single_def requestPromise_def SIGNED_URL_UPLOAD_MIN_BYTESIZE_def
        split: sum.splits)

lemma header_requestOpts:
  "header (putRecord_requestOpts options gz) ''Content-Type'' = putRecord_contentType options"
  "header (putRecord_requestOpts options gz) ''Content-Encoding'' = Str ''gzip''"
  "get (putRecord_requestOpts options gz) ''body'' = Buf gz"
  "get (putRecord_requestOpts options gz) ''method'' = Str ''PUT''"
  by (simp_all add: header_def get_def putRecord_requestOpts_def)

lemma header_upload:
  "header (set_prop ''url'' u (putRecord_requestOpts options gz)) ''Content-Type''
     = putRecord_contentType options"
  "header (set_prop ''url'' u (putRecord_requestOpts options gz)) ''Content-Encoding'' = Str ''gzip''"
  "get (set_prop ''url'' u (putRecord_requestOpts options gz)) ''body'' = Buf gz"
  "get (set_prop ''url'' u (putRecord_requestOpts options gz)) ''method'' = Str ''PUT''"
  by (simp_all add: header_def get_def putRecord_requestOpts_def set_prop_def)

lemma header_uploadUrlOpts:
  "header (putRecord_uploadUrlOpts options) ''Content-Type'' = putRecord_contentType options"
  "get (putRecord_uploadUrlOpts options) ''method'' = Str ''GET''"
  by (simp_all add: header_def get_def putRecord_uploadUrlOpts_def)


lemma assign_url_set_prop:
  "assign (assign [] (putRecord_requestOpts options gz)) [(''url'', u)]
     = set_prop ''url'' u (putRecord_requestOpts options gz)"
  by (simp add: assign_def set_prop_def putRecord_requestOpts_def)

lemma putRecord_log_cases:
  assumes "putRecord_checks E options = None"
      and "gzipPromise E (putRecord_encodedBody E options) = Inr gz"
  shows "snd (putRecord E log options) = log @ [putRecord_requestOpts options gz]
       \<or> snd (putRecord E log options) = log @ [putRecord_uploadUrlOpts options]
       \<or> (\<exists>u. snd (putRecord E log options)
                = log @ [putRecord_uploadUrlOpts options,
                         set_prop ''url'' u (putRecord_requestOpts options gz)])"
proof (cases "length gz < 262144")
  case True
  then show ?thesis using putRecord_log_direct [OF assms] by simp
next
  case False
  then have "262144 \<le> length gz" by simp
  from putRecord_log_signed [OF assms this, of log] show ?thesis
    by (auto simp: assign_url_set_prop split: sum.splits)
qed

lemma example_checks:
  "putRecord_checks (example_env answer gz)
     [(''baseUrl'', Str ''http://h''), (''storeId'', Str ''s''), (''key'', Str ''k''),
      (''body'', Str ''text'')] = None"
  "putItems_checks [(''baseUrl'', Str ''http://h''), (''datasetId'', Str ''d''),
      (''data'', Arr [])] = None"
  "key_value_stores_checks
     [(''baseUrl'', Str ''http://h''), (''storeId'', Str ''s''), (''key'', Str ''k''),
      (''body'', Str ''text'')] = None"
  by (simp_all add: putRecord_checks_def putItems_checks_def key_value_stores_checks_def
        putRecord_contentType_def putRecord_encodedBody_def get_def checkParamOrThrow_def
        absent_def example_env_def)

lemma example_gzip: "gzipPromise (example_env answer gz) b = Inr gz"
  by (simp add: example_env_def)

lemma example_respond: "respond (example_env answer gz) log = answer"
  by (simp add: example_env_def)

lemma example_signedUrl:
  "signedUrl_of (Obj [(''data'', Obj [(''signedUrl'', u)])]) = Inr u"
  by (simp add: signedUrl_of_def then_p_def get_def)

lemma putRecord_log:
  assumes "putRecord_checks E options = None"
      and "gzipPromise E (putRecord_encodedBody E options) = Inr gz"
  shows "snd (putRecord E log options)
           = (if length gz < 262144 then log @ [putRecord_requestOpts options gz]
              else log @ putRecord_uploadUrlOpts options #
                   (case respond E (log @ [putRecord_uploadUrlOpts options]) of
                      Inl e \<Rightarrow> []
                    | Inr response \<Rightarrow>
                        (case signedUrl_of response of
                           Inl e \<Rightarrow> []
                         | Inr signedUrl \<Rightarrow>
                             [set_prop ''url'' signedUrl (putRecord_requestOpts options gz)])))"
proof (cases "length gz < 262144")
  case True
  then show ?thesis using putRecord_log_direct [OF assms] by simp
next
  case False
  then have "262144 \<le> length gz" by simp
  from putRecord_log_signed [OF assms this, of log] False show ?thesis
    by (simp add: assign_url_set_prop split: sum.splits)
qed


lemma kvs_requestOpts:
  "get (key_value_stores_requestOpts E options) ''url'' = Str (recordUrl options)"
  "get (key_value_stores_requestOpts E options) ''method'' = Str ''PUT''"
  "get (key_value_stores_requestOpts E options) ''body''
     = (if truthy (get options ''useRawBody'') then get options ''body''
        else key_value_stores_encodeBody E (get options ''body'') (putRecord_contentType options))"
  "header (key_value_stores_requestOpts E options) ''Content-Type'' = putRecord_contentType options"
  "header (key_value_stores_requestOpts E options) ''Content-Encoding'' = Undefined"
  by (simp_all add: header_def get_def key_value_stores_requestOpts_def)

lemma kvs_newRequestOpts:
  "get (key_value_stores_newRequestOpts E options) ''url'' = Str (recordUrl options)"
  "get (key_value_stores_newRequestOpts E options) ''method'' = Str ''PUT''"
  "get (key_value_stores_newRequestOpts E options) ''body'' = Null"
  "get (key_value_stores_newRequestOpts E options) ''qs'' = Obj [(''url'', Num 1)]"
  "header (key_value_stores_newRequestOpts E options) ''Content-Type''
     = putRecord_contentType options"
  by (simp_all add: header_def get_def key_value_stores_newRequestOpts_def
        key_value_stores_requestOpts_def assign_def set_prop_def)

lemma kvs_s3RequestOpts:
  "get (key_value_stores_s3RequestOpts E options signedUrl gz) ''url'' = signedUrl"
  "get (key_value_stores_s3RequestOpts E options signedUrl gz) ''method'' = Str ''PUT''"
  "get (key_value_stores_s3RequestOpts E options signedUrl gz) ''body'' = Buf gz"
  "header (key_value_stores_s3RequestOpts E options signedUrl gz) ''Content-Type''
     = putRecord_contentType options"
  "header (key_value_stores_s3RequestOpts E options signedUrl gz) ''Content-Encoding''
     = Str ''gzip''"
  by (simp_all add: header_def get_def key_value_stores_s3RequestOpts_def
        key_value_stores_requestOpts_def assign_def set_prop_def)

lemma kvs_log:
  assumes "key_value_stores_checks options = None"
  shows "snd (key_value_stores_putRecord E log options)
           = (if \<not> truthy (get options ''url'')
              then log @ [key_value_stores_requestOpts E options]
              else log @ key_value_stores_newRequestOpts E options #
                   (case respond E (log @ [key_value_stores_newRequestOpts E options]) of
                      Inl e \<Rightarrow> []
                    | Inr response \<Rightarrow>
                        (case signedUrl_of response of
                           Inl e \<Rightarrow> []
                         | Inr signedUrl \<Rightarrow>
                             (case gzipPromise E
                                     (get (key_value_stores_requestOpts E options) ''body'') of
                                Inl e \<Rightarrow> []
                              | Inr gzipedBody \<Rightarrow>
                                  [key_value_stores_s3RequestOpts E options signedUrl
                                     gzipedBody]))))"
  using assms
  by (simp add: key_value_stores_putRecord_def Let_def single_def requestPromise_def
        split: sum.splits)

lemma kv_stores_putRecord_log:
  "snd (kv_stores_putRecord E log options) = log @ [kv_stores_putRecord_opts E options]"
  by (simp add: kv_stores_putRecord_def single_def requestPromise_def)

lemma kv_stores_putRecord_opts:
  "get (kv_stores_putRecord_opts E options) ''url''
     = Str (string_of E (get options ''baseUrl'') @ kvs_BASE_PATH @ ''/''
            @ string_of E (get options ''storeId'') @ ''/records/''
            @ string_of E (get options ''recordKey''))"
  "get (kv_stores_putRecord_opts E options) ''method'' = Str ''PUT''"
  "get (kv_stores_putRecord_opts E options) ''body'' = get options ''body''"
  "header (kv_stores_putRecord_opts E options) ''Content-Type'' = get options ''contentType''"
  "header (kv_stores_putRecord_opts E options) ''Content-Encoding'' = Undefined"
  by (simp_all add: header_def get_def kv_stores_putRecord_opts_def)

lemma example_checks_url:
  "key_value_stores_checks
     [(''baseUrl'', Str ''http://h''), (''storeId'', Str ''s''), (''key'', Str ''k''),
      (''body'', Str ''text''), (''url'', Bool True)] = None"
  by (simp add: key_value_stores_checks_def putRecord_contentType_def get_def
        checkParamOrThrow_def absent_def)







section \<open>The default content type of a record\<close>

text \<open>
  C10, as amended. When \<open>contentType\<close> is omitted from a call that passes validation,
  \<open>putRecord\<close> of the key-value store module that declares \<open>SIGNED_URL_UPLOAD_MIN_BYTESIZE\<close>
  and \<open>putRecord\<close> of \<open>key_value_stores.js\<close> encode the body under \<open>text/plain\<close> (unless
  \<open>useRawBody\<close> asks for no encoding) and send \<open>Content-Type: text/plain\<close> with every request:
  with the upload on the direct path, and on the signed-URL path with the request for the
  signed URL and with the upload that follows it. The requests are given in full, so that
  the record is seen to be uploaded. \<open>putRecord\<close> of \<open>key-value-stores.js\<close> has no default:
  its one request carries the body as given and a \<open>Content-Type\<close> header that is \<open>undefined\<close>.
\<close>

theorem default_content_type:
  assumes "get options ''contentType'' = Undefined"
      and "putRecord_checks E options = None"
      and "gzipPromise E (putRecord_encodedBody E options) = Inr gz"
      and "get koptions ''contentType'' = Undefined"
      and "key_value_stores_checks koptions = None"
      and "get ooptions ''contentType'' = Undefined"
  shows "putRecord_encodedBody E options
           = (if truthy (get options ''useRawBody'') then get options ''body''
              else encodeBody E (get options ''body'') (Str ''text/plain''))
       \<and> snd (putRecord E log options)
           = (if length gz < 262144 then log @ [putRecord_requestOpts options gz]
              else log @ putRecord_uploadUrlOpts options #
                   (case respond E (log @ [putRecord_uploadUrlOpts options]) of
                      Inl e \<Rightarrow> []
                    | Inr response \<Rightarrow>
                        (case signedUrl_of response of
                           Inl e \<Rightarrow> []
                         | Inr signedUrl \<Rightarrow>
                             [set_prop ''url'' signedUrl (putRecord_requestOpts options gz)])))
       \<and> get (putRecord_requestOpts options gz) ''body'' = Buf gz
       \<and> header (putRecord_requestOpts options gz) ''Content-Type'' = Str ''text/plain''
       \<and> header (putRecord_uploadUrlOpts options) ''Content-Type'' = Str ''text/plain''
       \<and> get (set_prop ''url'' u (putRecord_requestOpts options gz)) ''body'' = Buf gz
       \<and> header (set_prop ''url'' u (putRecord_requestOpts options gz)) ''Content-Type''
           = Str ''text/plain''
       \<and> snd (key_value_stores_putRecord E log koptions)
           = (if \<not> truthy (get koptions ''url'')
              then log @ [key_value_stores_requestOpts E koptions]
              else log @ key_value_stores_newRequestOpts E koptions #
                   (case respond E (log @ [key_value_stores_newRequestOpts E koptions]) of
                      Inl e \<Rightarrow> []
                    | Inr response \<Rightarrow>
                        (case signedUrl_of response of
                           Inl e \<Rightarrow> []
                         | Inr signedUrl \<Rightarrow>
                             (case gzipPromise E
                                     (get (key_value_stores_requestOpts E koptions) ''body'') of
                                Inl e \<Rightarrow> []
                              | Inr gzipedBody \<Rightarrow>
                                  [key_value_stores_s3RequestOpts E koptions signedUrl
                                     gzipedBody]))))
       \<and> get (key_value_stores_requestOpts E koptions) ''body''
           = (if truthy (get koptions ''useRawBody'') then get koptions ''body''
              else key_value_stores_encodeBody E (get koptions ''body'') (Str ''text/plain''))
       \<and> header (key_value_stores_requestOpts E koptions) ''Content-Type'' = Str ''text/plain''
       \<and> header (key_value_stores_newRequestOpts E koptions) ''Content-Type''
           = Str ''text/plain''
       \<and> get (key_value_stores_s3RequestOpts E koptions u kgz) ''body'' = Buf kgz
       \<and> header (key_value_stores_s3RequestOpts E koptions u kgz) ''Content-Type''
           = Str ''text/plain''
       \<and> snd (kv_stores_putRecord E log ooptions) = log @ [kv_stores_putRecord_opts E ooptions]
       \<and> get (kv_stores_putRecord_opts E ooptions) ''body'' = get ooptions ''body''
       \<and> header (kv_stores_putRecord_opts E ooptions) ''Content-Type'' = Undefined"
proof -
  have ct: "putRecord_contentType options = Str ''text/plain''"
    using assms(1) by (simp add: putRecord_contentType_def)
  have kct: "putRecord_contentType koptions = Str ''text/plain''"
    using assms(4) by (simp add: putRecord_contentType_def)
  have a: "putRecord_encodedBody E options
           = (if truthy (get options ''useRawBody'') then get options ''body''
              else encodeBody E (get options ''body'') (Str ''text/plain''))"
    by (simp add: putRecord_encodedBody_def ct)
  show ?thesis
    using putRecord_log [OF assms(2,3), of log] kvs_log [OF assms(5), of E log] a
    by (simp only: header_requestOpts header_upload header_uploadUrlOpts kvs_requestOpts
          kvs_newRequestOpts kvs_s3RequestOpts kv_stores_putRecord_log kv_stores_putRecord_opts
          ct kct assms(6) simp_thms)
qed

text \<open>
  The theorem at records stored without a content type: one by each \<open>putRecord\<close> on the
  direct path, and one by the one of \<open>key_value_stores.js\<close> through a signed URL.
\<close>

theorem default_content_type_witness:
  "snd (putRecord (example_env (Inr Null) [31, 139, 8]) []
          [(''baseUrl'', Str ''http://h''), (''storeId'', Str ''s''), (''key'', Str ''k''),
           (''body'', Str ''text'')])
   = [putRecord_requestOpts
        [(''baseUrl'', Str ''http://h''), (''storeId'', Str ''s''), (''key'', Str ''k''),
         (''body'', Str ''text'')] [31, 139, 8]]
   \<and> header (putRecord_requestOpts
        [(''baseUrl'', Str ''http://h''), (''storeId'', Str ''s''), (''key'', Str ''k''),
         (''body'', Str ''text'')] [31, 139, 8]) ''Content-Type'' = Str ''text/plain''
   \<and> snd (key_value_stores_putRecord (example_env (Inr Null) [31, 139, 8]) []
            [(''baseUrl'', Str ''http://h''), (''storeId'', Str ''s''), (''key'', Str ''k''),
             (''body'', Str ''text'')])
     = [key_value_stores_requestOpts (example_env (Inr Null) [31, 139, 8])
          [(''baseUrl'', Str ''http://h''), (''storeId'', Str ''s''), (''key'', Str ''k''),
           (''body'', Str ''text'')]]
   \<and> get (key_value_stores_requestOpts (example_env (Inr Null) [31, 139, 8])
            [(''baseUrl'', Str ''http://h''), (''storeId'', Str ''s''), (''key'', Str ''k''),
             (''body'', Str ''text'')]) ''body'' = Str ''text''
   \<and> header (key_value_stores_requestOpts (example_env (Inr Null) [31, 139, 8])
            [(''baseUrl'', Str ''http://h''), (''storeId'', Str ''s''), (''key'', Str ''k''),
             (''body'', Str ''text'')]) ''Content-Type'' = Str ''text/plain''
   \<and> snd (key_value_stores_putRecord
            (example_env (Inr (Obj [(''data'', Obj [(''signedUrl'', Str ''https://storage/signed'')])]))
               [31, 139, 8]) []
            [(''baseUrl'', Str ''http://h''), (''storeId'', Str ''s''), (''key'', Str ''k''),
             (''body'', Str ''text''), (''url'', Bool True)])
     = [key_value_stores_newRequestOpts
          (example_env (Inr (Obj [(''data'', Obj [(''signedUrl'', Str ''https://storage/signed'')])]))
             [31, 139, 8])
          [(''baseUrl'', Str ''http://h''), (''storeId'', Str ''s''), (''key'', Str ''k''),
           (''body'', Str ''text''), (''url'', Bool True)],
        key_value_stores_s3RequestOpts
          (example_env (Inr (Obj [(''data'', Obj [(''signedUrl'', Str ''https://storage/signed'')])]))
             [31, 139, 8])
          [(''baseUrl'', Str ''http://h''), (''storeId'', Str ''s''), (''key'', Str ''k''),
           (''body'', Str ''text''), (''url'', Bool True)]
          (Str ''https://storage/signed'') [31, 139, 8]]
   \<and> header (key_value_stores_s3RequestOpts
            (example_env (Inr (Obj [(''data'', Obj [(''signedUrl'', Str ''https://storage/signed'')])]))
               [31, 139, 8])
            [(''baseUrl'', Str ''http://h''), (''storeId'', Str ''s''), (''key'', Str ''k''),
             (''body'', Str ''text''), (''url'', Bool True)]
            (Str ''https://storage/signed'') [31, 139, 8]) ''Content-Type'' = Str ''text/plain''"
proof -
  let ?E = "example_env (Inr Null) [31, 139, 8]"
  let ?R = "Obj [(''data'', Obj [(''signedUrl'', Str ''https://storage/signed'')])]"
  let ?F = "example_env (Inr ?R) [31, 139, 8]"
  let ?O = "[(''baseUrl'', Str ''http://h''), (''storeId'', Str ''s''), (''key'', Str ''k''),
             (''body'', Str ''text'')]"
  let ?K = "[(''baseUrl'', Str ''http://h''), (''storeId'', Str ''s''), (''key'', Str ''k''),
             (''body'', Str ''text''), (''url'', Bool True)]"
  have u: "get ?O ''contentType'' = Undefined" and uk: "get ?K ''contentType'' = Undefined"
    by (simp_all add: get_def)
  have nurl: "\<not> truthy (get ?O ''url'')" and url: "truthy (get ?K ''url'')"
    and raw: "\<not> truthy (get ?O ''useRawBody'')" and b: "get ?O ''body'' = Str ''text''"
    by (simp_all add: get_def)
  have enc: "key_value_stores_encodeBody ?E (Str ''text'') (Str ''text/plain'') = Str ''text''"
    by (simp add: key_value_stores_encodeBody_def CONTENT_TYPE_JSON_def)
  note th1 = default_content_type
               [where E = "?E" and options = "?O" and koptions = "?O" and ooptions = "?O"
                  and log = "[]" and gz = "[31, 139, 8]",
                OF u example_checks(1) example_gzip u example_checks(3) u]
  note th2 = default_content_type
               [where E = "?F" and options = "?O" and koptions = "?K" and ooptions = "?O"
                  and log = "[]" and gz = "[31, 139, 8]"
                  and u = "Str ''https://storage/signed''" and kgz = "[31, 139, 8]",
                OF u example_checks(1) example_gzip uk example_checks_url u]
  from th1 have a: "snd (putRecord ?E [] ?O) = [putRecord_requestOpts ?O [31, 139, 8]]"
    "header (putRecord_requestOpts ?O [31, 139, 8]) ''Content-Type'' = Str ''text/plain''"
    by simp_all
  from th1 nurl have c: "snd (key_value_stores_putRecord ?E [] ?O)
      = [key_value_stores_requestOpts ?E ?O]"
    by simp
  from th1 raw b enc have d: "get (key_value_stores_requestOpts ?E ?O) ''body'' = Str ''text''"
    "header (key_value_stores_requestOpts ?E ?O) ''Content-Type'' = Str ''text/plain''"
    by simp_all
  from th2 url have e: "snd (key_value_stores_putRecord ?F [] ?K)
      = [key_value_stores_newRequestOpts ?F ?K,
         key_value_stores_s3RequestOpts ?F ?K (Str ''https://storage/signed'') [31, 139, 8]]"
    by (simp add: example_respond example_signedUrl example_gzip)
  from th2 have f: "header (key_value_stores_s3RequestOpts ?F ?K (Str ''https://storage/signed'')
                              [31, 139, 8]) ''Content-Type'' = Str ''text/plain''"
    by simp
  from a c d e f show ?thesis by simp
qed

text \<open>
  C10 as stated fails for \<open>putRecord\<close> of \<open>key-value-stores.js\<close>: without \<open>contentType\<close> the
  request carries a \<open>Content-Type\<close> header that is \<open>undefined\<close>, not \<open>text/plain\<close>.
\<close>

theorem putRecord_no_default_counterexample:
  "snd (kv_stores_putRecord (example_env (Inr Null) []) []
          [(''baseUrl'', Str ''http://h''), (''storeId'', Str ''s''), (''recordKey'', Str ''k''),
           (''body'', Str ''text'')])
   = [[(''url'', Str ''http://h/v2/key-value-stores/s/records/k''),
       (''json'', Bool True),
       (''method'', Str ''PUT''),
       (''body'', Str ''text''),
       (''headers'', Obj [(''Content-Type'', Undefined)])]]
   \<and> header [(''url'', Str ''http://h/v2/key-value-stores/s/records/k''),
              (''json'', Bool True),
              (''method'', Str ''PUT''),
              (''body'', Str ''text''),
              (''headers'', Obj [(''Content-Type'', Undefined)])] ''Content-Type'' = Undefined
   \<and> Undefined \<noteq> Str ''text/plain''"
  by (simp add: kv_stores_putRecord_def kv_stores_putRecord_opts_def string_of_def
        kvs_BASE_PATH_def get_def header_def single_def requestPromise_def)

section \<open>Running a task: the legacy body and the input\<close>

lemma first_error_None_iff: "first_error cs = None \<longleftrightarrow> (\<forall>c \<in> set cs. c = None)"
  by (induction cs rule: first_error.induct) auto

lemma check_tString: "checkParamOrThrow v n tString = None \<longleftrightarrow> (\<exists>s. v = Str s)"
  by (cases v) (simp_all add: checkParamOrThrow_def absent_def)



lemma runTask_checks_taskId:
  "runTask_checks options = None \<Longrightarrow> \<exists>i. get options ''taskId'' = Str i"
  by (simp add: runTask_checks_def first_error_None_iff check_tString)

text \<open>
  C8, as amended. For a \<open>runTask\<close> call whose other parameters pass validation: when \<open>body\<close> is
  truthy (a non-empty string, say) and \<open>input\<close> is given, the call throws the error for
  conflicting parameters and no request is issued; when only a valid \<open>body\<close> is given, or
  only \<open>input\<close>, the call passes this check and issues its one request, which carries the
  given value as body.
\<close>

theorem runTask_body_and_input_conflict:
  assumes "runTask_checks options = None"
  shows "(truthy (get options ''body'') \<and> truthy (get options ''input'')
            \<longrightarrow> runTask E log options = (Throws ConflictingParametersError, log))
       \<and> (truthy (get options ''body'') \<and> \<not> truthy (get options ''input'')
            \<and> first_error
                 [checkParamOrThrow (get options ''contentType'') ''contentType'' tMaybeString,
                  checkParamOrThrow (get options ''body'') ''body'' tString] = None
            \<longrightarrow> (\<exists>p opts. runTask E log options = (Promise p, log @ [opts])
                   \<and> get opts ''body'' = get options ''body''))
       \<and> (\<not> truthy (get options ''body'') \<and> truthy (get options ''input'')
            \<longrightarrow> (\<exists>p opts. runTask E log options = (Promise p, log @ [opts])
                   \<and> get opts ''body'' = get options ''input''
                   \<and> get opts ''json'' = Bool True))"
proof -
  from runTask_checks_taskId [OF assms] obtain i where i: "get options ''taskId'' = Str i" ..
  note rt = runTask_def [of E log options]
  have a: "truthy (get options ''body'') \<and> truthy (get options ''input'')
            \<longrightarrow> runTask E log options = (Throws ConflictingParametersError, log)"
    using assms i by (simp add: rt Let_def)
  have b: "truthy (get options ''body'') \<and> \<not> truthy (get options ''input'')
            \<and> first_error
                 [checkParamOrThrow (get options ''contentType'') ''contentType'' tMaybeString,
                  checkParamOrThrow (get options ''body'') ''body'' tString] = None
            \<longrightarrow> (\<exists>p opts. runTask E log options = (Promise p, log @ [opts])
                   \<and> get opts ''body'' = get options ''body'')"
  proof (intro impI, elim conjE)
    assume t: "truthy (get options ''body'')" and n: "\<not> truthy (get options ''input'')"
      and f: "first_error
                 [checkParamOrThrow (get options ''contentType'') ''contentType'' tMaybeString,
                  checkParamOrThrow (get options ''body'') ''body'' tString] = None"
    have g: "\<And>ob. get (set_if (truthy (get options ''contentType'')) ''headers''
                         (Obj [(''Content-Type'', get options ''contentType'')])
                         (set_prop ''body'' (get options ''body'')
                            [(''url'', Str u), (''method'', Str ''POST''), (''qs'', Obj ob)]))
                    ''body'' = get options ''body''" for u
      by (simp add: set_if_def set_prop_def get_def)
    show "\<exists>p opts. runTask E log options = (Promise p, log @ [opts])
            \<and> get opts ''body'' = get options ''body''"
      using assms i t n f
      by (simp add: rt Let_def single_def requestPromise_def g del: first_error.simps)
  qed
  have c: "\<not> truthy (get options ''body'') \<and> truthy (get options ''input'')
            \<longrightarrow> (\<exists>p opts. runTask E log options = (Promise p, log @ [opts])
                   \<and> get opts ''body'' = get options ''input''
                   \<and> get opts ''json'' = Bool True)"
    using assms i
    by (simp add: rt Let_def single_def requestPromise_def set_prop_def get_def)
  from a b c show ?thesis by blast
qed

lemma example_runTask_checks:
  "runTask_checks [(''baseUrl'', Str ''http://h''), (''token'', Str ''t''),
                   (''taskId'', Str ''task''), (''body'', b), (''input'', Obj inp)] = None"
  by (simp add: runTask_checks_def get_def checkParamOrThrow_def absent_def)

text \<open>The theorem at a call with a body and an input.\<close>

theorem runTask_body_and_input_conflict_witness:
  "runTask (example_env (Inr Null) []) []
     [(''baseUrl'', Str ''http://h''), (''token'', Str ''t''), (''taskId'', Str ''task''),
      (''body'', Str ''raw''), (''input'', Obj [(''a'', Num 1)])]
   = (Throws ConflictingParametersError, [])"
  using runTask_body_and_input_conflict
          [OF example_runTask_checks, of "Str ''raw''" "[(''a'', Num 1)]"
             "example_env (Inr Null) []" "[]"]
  by (simp add: get_def)

text \<open>
  C8 as stated fails when the body given is the empty string: with an input next to it the
  call throws nothing and the request is issued, with the input as body.
\<close>

theorem runTask_empty_body_counterexample:
  "runTask (example_env (Inr (Obj [(''data'', Str ''run'')])) []) []
     [(''baseUrl'', Str ''http://h''), (''token'', Str ''t''), (''taskId'', Str ''task''),
      (''body'', Str ''''), (''input'', Obj [(''a'', Num 1)])]
   = (Promise (Inr (Str ''run'')),
      [[(''url'', Str ''http://h/v2/actor-tasks/task/runs''), (''method'', Str ''POST''),
        (''qs'', Obj [(''token'', Str ''t'')]), (''body'', Obj [(''a'', Num 1)]),
        (''json'', Bool True)]])"
  by (simp add: runTask_def runTask_checks_def get_def checkParamOrThrow_def absent_def
        single_def requestPromise_def set_if_def set_prop_def tasks_BASE_PATH_def then_p_def
        example_env_def)

section \<open>The options of the client\<close>

lemma get_set_prop: "get (set_prop k v ob) k' = (if k' = k then v else get ob k')"
  by (simp add: get_def set_prop_def update_conv')

lemma assign_Cons: "assign t ((k, v) # s) = assign (set_prop k v t) s"
  by (simp add: assign_def)

lemma assign_Nil: "assign t [] = t"
  by (simp add: assign_def)

lemma get_assign:
  "distinct (map fst s) \<Longrightarrow>
     get (assign t s) k = (case map_of s k of Some v \<Rightarrow> v | None \<Rightarrow> get t k)"
proof (induction s arbitrary: t)
  case Nil
  then show ?case by (simp add: assign_Nil)
next
  case (Cons p s)
  obtain k' v' where p: "p = (k', v')" by (cases p)
  from Cons.prems p have d: "distinct (map fst s)" and n: "k' \<notin> fst ` set s" by auto
  from n have m: "map_of s k' = None" by (simp add: map_of_eq_None_iff)
  show ?case
    using Cons.IH [OF d, of "set_prop k' v' t"] m
    by (auto simp: p assign_Cons get_set_prop split: option.splits)
qed

lemma distinct_set_prop: "distinct (map fst ob) \<Longrightarrow> distinct (map fst (set_prop k v ob))"
  by (simp add: set_prop_def distinct_update)

lemma distinct_assign: "distinct (map fst t) \<Longrightarrow> distinct (map fst (assign t s))"
proof (induction s arbitrary: t)
  case Nil
  then show ?case by (simp add: assign_Nil)
next
  case (Cons p s)
  then show ?case by (cases p) (simp add: assign_Cons distinct_set_prop)
qed

lemma get_copy:
  assumes "distinct (map fst ob)"
  shows "get (assign [] ob) k = get ob k"
proof -
  have "get (assign [] ob) k = (case map_of ob k of Some v \<Rightarrow> v | None \<Rightarrow> get [] k)"
    using assms by (rule get_assign)
  then show ?thesis by (simp add: get_def split: option.splits)
qed

lemma methodDecorator_Inr:
  assumes "methodDecorator E h client callOpts = Inr (h', a)"
  shows "a = length h"
    and "h' = h @ [set_prop ''baseUrl''
                     (Str (baseUrl_of E (assign (assign [] (h ! client)) callOpts)))
                     (assign (assign [] (h ! client)) callOpts)]"
  using assms by (auto simp: methodDecorator_def Let_def split: option.splits)

lemma baseUrl_of_set_baseUrl: "baseUrl_of E (set_prop ''baseUrl'' v ob) = baseUrl_of E ob"
  by (simp add: baseUrl_of_def get_set_prop)

text \<open>A port beyond the safe integers is written into \<open>baseUrl\<close> as the host converts it.\<close>

lemma baseUrl_of_large_port:
  "baseUrl_of E [(''protocol'', Str ''http''), (''host'', Str ''h''), (''port'', Num (10 ^ 21)),
                 (''basePath'', Str [])]
     = ''http://h:'' @ String E (Num (10 ^ 21))"
  by (simp add: baseUrl_of_def string_of_def MAX_SAFE_INTEGER_def get_def)

lemma setOptions_plain:
  "\<not> isArrayLike newOptions \<Longrightarrow>
     setOptions client newOptions h = h[client := assign (h ! client) newOptions]"
  by (simp add: setOptions_def forEach_calls_def assign_def)

text \<open>
  What \<open>setOptions\<close> does with options that \<open>_.forEach\<close> walks by their keys: it changes the
  object \<open>instanceOpts\<close> of the client and no other object of the heap. The options that
  \<open>methodDecorator\<close> merged for a call made before are a different object, which is the
  same after \<open>setOptions\<close> and after a later call. The options merged for a call made after
  \<open>setOptions\<close> hold, for every key but \<open>baseUrl\<close>, the value given with the call, else the
  value given to \<open>setOptions\<close>, else the value the client had; their \<open>baseUrl\<close> is built from
  them.
\<close>

lemma setOptions_plain_options:
  assumes "client < length h0" and "distinct (map fst (h0 ! client))"
      and "distinct (map fst newOptions)" and "distinct (map fst callOpts2)"
      and "\<not> isArrayLike newOptions"
      and "methodDecorator E h0 client callOpts1 = Inr (h1, a1)"
      and "methodDecorator E (setOptions client newOptions h1) client callOpts2 = Inr (h3, a2)"
  shows "length (setOptions client newOptions h1) = length h1
       \<and> (\<forall>a. a \<noteq> client \<longrightarrow> setOptions client newOptions h1 ! a = h1 ! a)
       \<and> a1 \<noteq> client \<and> a1 < length h1
       \<and> h3 ! a1 = h1 ! a1
       \<and> (\<forall>k. k \<noteq> ''baseUrl'' \<longrightarrow>
             get (h3 ! a2) k
               = (case map_of callOpts2 k of
                    Some v \<Rightarrow> v
                  | None \<Rightarrow> (case map_of newOptions k of
                               Some v \<Rightarrow> v
                             | None \<Rightarrow> get (h0 ! client) k)))
       \<and> get (h3 ! a2) ''baseUrl'' = Str (baseUrl_of E (h3 ! a2))"
proof -
  note d1 = methodDecorator_Inr [OF assms(6)]
  note d2 = methodDecorator_Inr [OF assms(7)]
  note so = setOptions_plain [OF assms(5)]
  have len: "length (setOptions client newOptions h1) = length h1"
    by (simp add: so)
  have frame: "\<forall>a. a \<noteq> client \<longrightarrow> setOptions client newOptions h1 ! a = h1 ! a"
    by (simp add: so)
  have a1: "a1 \<noteq> client" "a1 < length h1"
    using assms(1) d1 by auto
  have c1: "h1 ! client = h0 ! client"
    using assms(1) d1 by (simp add: nth_append)
  have inst: "setOptions client newOptions h1 ! client = assign (h0 ! client) newOptions"
    using assms(1) d1 c1 by (simp add: so)
  have keep: "h3 ! a1 = h1 ! a1"
    using a1 d2 len frame by (simp add: nth_append)
  have new: "h3 ! a2 = set_prop ''baseUrl''
               (Str (baseUrl_of E (assign (assign [] (assign (h0 ! client) newOptions)) callOpts2)))
               (assign (assign [] (assign (h0 ! client) newOptions)) callOpts2)"
    using d2 inst by simp
  have dist: "distinct (map fst (assign (h0 ! client) newOptions))"
    using assms(2) by (rule distinct_assign)
  have merged: "\<forall>k. k \<noteq> ''baseUrl'' \<longrightarrow>
             get (h3 ! a2) k
               = (case map_of callOpts2 k of
                    Some v \<Rightarrow> v
                  | None \<Rightarrow> (case map_of newOptions k of
                               Some v \<Rightarrow> v
                             | None \<Rightarrow> get (h0 ! client) k))"
    by (simp add: new get_set_prop get_assign [OF assms(4)] get_copy [OF dist]
          get_assign [OF assms(3)] split: option.splits)
  have url: "get (h3 ! a2) ''baseUrl'' = Str (baseUrl_of E (h3 ! a2))"
    by (simp add: new get_set_prop baseUrl_of_set_baseUrl)
  from len frame a1 keep merged url show ?thesis by blast
qed

lemma example_client_constructed:
  "ApifyClient (Func ''function Promise() { [native code] }'') Undefined []
     [(''protocol'', Str ''http''), (''host'', Str ''myhost-1''),
      (''basePath'', Str ''/mypath-1''), (''port'', Num 80)]
   = Inr ([example_instanceOpts ''myhost-1''], 0)"
  by (simp add: ApifyClient_def getDefaultOptions_def assign_def set_prop_def omit_def get_def
        example_instanceOpts_def)

lemma example_call_before:
  "methodDecorator E [example_instanceOpts ''myhost-1''] 0 []
   = Inr ([example_instanceOpts ''myhost-1'', example_mergedOpts ''myhost-1''], 1)"
  by (simp add: methodDecorator_def assign_def set_prop_def get_def baseUrl_of_def
        string_of_def MAX_SAFE_INTEGER_def show_int_def digits.simps example_instanceOpts_def
        example_mergedOpts_def)

text \<open>
  C9. \<open>setOptions\<close> hands its argument to \<open>_.forEach\<close>, which takes an object with a numeric
  \<open>length\<close> for an array. Called with \<open>{ host: 'my-very-new-host', length: 0 }\<close> on a client
  constructed for \<open>myhost-1\<close> it writes nothing: \<open>instanceOpts\<close> is as it was, and the options
  merged for a call made afterwards hold the old host and a \<open>baseUrl\<close> built from it. The
  same call without \<open>length\<close> sets the host.
\<close>

theorem setOptions_skips_array_like_options:
  "ApifyClient (Func ''function Promise() { [native code] }'') Undefined []
     [(''protocol'', Str ''http''), (''host'', Str ''myhost-1''),
      (''basePath'', Str ''/mypath-1''), (''port'', Num 80)]
   = Inr ([example_instanceOpts ''myhost-1''], 0)
   \<and> setOptions 0 [(''host'', Str ''my-very-new-host''), (''length'', Num 0)]
       [example_instanceOpts ''myhost-1'']
     = [example_instanceOpts ''myhost-1'']
   \<and> methodDecorator (example_env (Inr Null) [])
       (setOptions 0 [(''host'', Str ''my-very-new-host''), (''length'', Num 0)]
          [example_instanceOpts ''myhost-1'']) 0 []
     = Inr ([example_instanceOpts ''myhost-1'', example_mergedOpts ''myhost-1''], 1)
   \<and> get (example_mergedOpts ''myhost-1'') ''host'' = Str ''myhost-1''
   \<and> get (example_mergedOpts ''myhost-1'') ''baseUrl'' = Str ''http://myhost-1:80/mypath-1''
   \<and> setOptions 0 [(''host'', Str ''my-very-new-host'')] [example_instanceOpts ''myhost-1'']
     = [example_instanceOpts ''my-very-new-host'']"
proof -
  have s: "setOptions 0 [(''host'', Str ''my-very-new-host''), (''length'', Num 0)]
             [example_instanceOpts ''myhost-1'']
           = [example_instanceOpts ''myhost-1'']"
    by (simp add: setOptions_def forEach_calls_def isArrayLike_def MAX_ARRAY_INDEX_def get_def)
  have g: "get (example_mergedOpts ''myhost-1'') ''host'' = Str ''myhost-1''"
    "get (example_mergedOpts ''myhost-1'') ''baseUrl'' = Str ''http://myhost-1:80/mypath-1''"
    by (simp_all add: example_mergedOpts_def example_instanceOpts_def get_def)
  have p: "setOptions 0 [(''host'', Str ''my-very-new-host'')] [example_instanceOpts ''myhost-1'']
           = [example_instanceOpts ''my-very-new-host'']"
    by (simp add: setOptions_def forEach_calls_def isArrayLike_def get_def set_prop_def
          example_instanceOpts_def)
  from example_client_constructed s example_call_before g p show ?thesis by simp
qed

section \<open>Where a failed validation surfaces\<close>






text \<open>
  Values that are no plain object: \<open>listItems\<close> accepts an empty array and a function, as
  \<open>ow\<close> does, and issues its request; it refuses an array with an element, and a string.
\<close>

lemma exactShape_of_other_values:
  "ow_optional_exactShape listItems_shape (Arr []) = None"
  "ow_optional_exactShape listItems_shape (Func f) = None"
  "ow_optional_exactShape listItems_shape (Arr [Str ''clean'']) = Some (ArgumentError ''options'')"
  "ow_optional_exactShape listItems_shape (Str ''clean'') = Some (ArgumentError ''options'')"
  by (simp_all add: ow_optional_exactShape_def listItems_shape_def get_def digits.simps)

lemma listItems_of_empty_array:
  "snd (listItems E this log (Arr []))
     = log @ [[(''url'', Str (url_of this ''items'')), (''method'', Str ''GET''),
               (''params'', params_of this (Arr []))]]"
  by (simp add: listItems_def Let_def exactShape_of_other_values requestPromise_def
        split: sum.splits)



end
